theory Spec2Isabelle
  imports Complex_Main "HOL-Library.List_Lexorder" "HOL-Library.Char_ord" "HOL-Library.Multiset"
begin

section \<open>JavaScript values\<close>

text \<open>
  The scene documents are plain JSON data handled by dynamically typed code, so the model
  starts from a datatype of JavaScript values. Numbers are IEEE doubles in the source; the
  model takes a finite one as the real number it denotes and keeps the three non-finite
  values apart, since \<open>Number(...)\<close> can produce them and \<open>Number.isFinite\<close> tests
  for them. An arithmetic operation of the source is the exact operation followed by the
  rounding to the nearest double (see \<open>roundToDouble\<close> below); overflow to infinity is
  not modelled. A missing property (\<open>undefined\<close>) is
  \<open>None\<close> of an option type. Strings are lists of 8-bit characters.

  Objects are association lists in insertion order, as \<open>Object.keys\<close>,
  the spread syntax and \<open>JSON.stringify\<close> see them (the reordering of
  integer-like keys is not modelled).
\<close>

datatype jsnum = Fin real | NaN | PosInf | NegInf

datatype json =
    JNull
  | JBool bool
  | JNum jsnum
  | JStr string
  | JArr "json list"
  | JObj "(string \<times> json) list"

type_synonym obj = "(string \<times> json) list"

text \<open>Property read \<open>o.k\<close>, property write \<open>o.k = v\<close> (an existing key keeps its
  position, a new key goes last), and the object spread \<open>{...a, ...b}\<close>.\<close>

definition getField :: "'k \<Rightarrow> ('k \<times> 'v) list \<Rightarrow> 'v option" where
  "getField k ps = map_of ps k"

fun setField :: "'k \<Rightarrow> 'v \<Rightarrow> ('k \<times> 'v) list \<Rightarrow> ('k \<times> 'v) list" where
  "setField k v [] = [(k, v)]"
| "setField k v (p # ps) = (if fst p = k then (k, v) # ps else p # setField k v ps)"

definition spread :: "('k \<times> 'v) list \<Rightarrow> ('k \<times> 'v) list \<Rightarrow> ('k \<times> 'v) list" where
  "spread a b = foldl (\<lambda>acc p. setField (fst p) (snd p) acc) a b"

definition hasKey :: "'k \<Rightarrow> ('k \<times> 'v) list \<Rightarrow> bool" where
  "hasKey k ps = (k \<in> set (map fst ps))"

text \<open>
  The primitives of the JavaScript runtime and of Node that the repository calls but does
  not define are parameters of the model: number formatting and parsing
  (\<open>Number::toString\<close>, \<open>StringToNumber\<close>), the rounding of a real number to the nearest
  double, the SHA-256 hex digest of \<open>node:crypto\<close> and the base64 decoder of \<open>Buffer.from\<close>.
\<close>

record runtime =
  numToString :: "real \<Rightarrow> string"
  strToNum :: "string \<Rightarrow> jsnum"
  roundToDouble :: "real \<Rightarrow> real"
  sha256hex :: "string \<Rightarrow> string"
  base64decode :: "string \<Rightarrow> string"

text \<open>The operators \<open>+\<close>, \<open>-\<close>, \<open>*\<close>, \<open>/\<close> and \<open>Math.sqrt\<close> on finite doubles.\<close>

definition fadd :: "runtime \<Rightarrow> real \<Rightarrow> real \<Rightarrow> real" where
  "fadd rt a b = roundToDouble rt (a + b)"

definition fsub :: "runtime \<Rightarrow> real \<Rightarrow> real \<Rightarrow> real" where
  "fsub rt a b = roundToDouble rt (a - b)"

definition fmul :: "runtime \<Rightarrow> real \<Rightarrow> real \<Rightarrow> real" where
  "fmul rt a b = roundToDouble rt (a * b)"

definition fdiv :: "runtime \<Rightarrow> real \<Rightarrow> real \<Rightarrow> real" where
  "fdiv rt a b = roundToDouble rt (a / b)"

definition fsqrt :: "runtime \<Rightarrow> real \<Rightarrow> real" where
  "fsqrt rt a = roundToDouble rt (sqrt a)"

fun joinWith :: "'a list \<Rightarrow> 'a list list \<Rightarrow> 'a list" where
  "joinWith sep [] = []"
| "joinWith sep [x] = x"
| "joinWith sep (x # y # ys) = x @ sep @ joinWith sep (y # ys)"

text \<open>\<open>String(v)\<close>\<close>

fun toString :: "runtime \<Rightarrow> json \<Rightarrow> string" where
  "toString rt JNull = ''null''"
| "toString rt (JBool b) = (if b then ''true'' else ''false'')"
| "toString rt (JNum (Fin r)) = numToString rt r"
| "toString rt (JNum NaN) = ''NaN''"
| "toString rt (JNum PosInf) = ''Infinity''"
| "toString rt (JNum NegInf) = ''-Infinity''"
| "toString rt (JStr s) = s"
| "toString rt (JArr xs) = joinWith '','' (map (\<lambda>x. if x = JNull then [] else toString rt x) xs)"
| "toString rt (JObj kvs) = ''[object Object]''"

text \<open>\<open>Number(v)\<close>; \<open>Number(undefined)\<close> is \<open>NaN\<close>.\<close>

fun toNumber :: "runtime \<Rightarrow> json \<Rightarrow> jsnum" where
  "toNumber rt JNull = Fin 0"
| "toNumber rt (JBool b) = Fin (if b then 1 else 0)"
| "toNumber rt (JNum n) = n"
| "toNumber rt (JStr s) = strToNum rt s"
| "toNumber rt (JArr xs) = strToNum rt (toString rt (JArr xs))"
| "toNumber rt (JObj kvs) = NaN"

definition Number_js :: "runtime \<Rightarrow> json option \<Rightarrow> jsnum" where
  "Number_js rt v = (case v of None \<Rightarrow> NaN | Some x \<Rightarrow> toNumber rt x)"

text \<open>\<open>Boolean(v)\<close>, the truthiness that \<open>if (v)\<close> and \<open>!v\<close> test.\<close>

fun truthy :: "json \<Rightarrow> bool" where
  "truthy JNull = False"
| "truthy (JBool b) = b"
| "truthy (JNum (Fin r)) = (r \<noteq> 0)"
| "truthy (JNum NaN) = False"
| "truthy (JNum PosInf) = True"
| "truthy (JNum NegInf) = True"
| "truthy (JStr s) = (s \<noteq> [])"
| "truthy (JArr xs) = True"
| "truthy (JObj kvs) = True"

definition Boolean_js :: "json option \<Rightarrow> bool" where
  "Boolean_js v = (case v of None \<Rightarrow> False | Some x \<Rightarrow> truthy x)"

text \<open>The nullish coalescing \<open>v ?? d\<close>.\<close>

definition coalesce :: "json option \<Rightarrow> json \<Rightarrow> json" where
  "coalesce v d = (case v of None \<Rightarrow> d | Some JNull \<Rightarrow> d | Some x \<Rightarrow> x)"

definition nullish :: "json option \<Rightarrow> bool" where
  "nullish v = (v = None \<or> v = Some JNull)"

text \<open>\<open>x + 1\<close> on a number.\<close>

fun succNum :: "runtime \<Rightarrow> jsnum \<Rightarrow> jsnum" where
  "succNum rt (Fin r) = Fin (fadd rt r 1)"
| "succNum rt n = n"

subsection \<open>The sources of non-determinism\<close>

text \<open>
  \<open>randomUUID()\<close>, \<open>Math.random()\<close>, \<open>Date.now()\<close>, \<open>new Date().toISOString()\<close>
  and the modification time that the file system stamps on a written file are oracles:
  each is a stream of the values that successive calls return, and a call takes the head
  of its stream.
\<close>

record env =
  uuids :: "nat \<Rightarrow> string"
  randoms :: "nat \<Rightarrow> real"
  clockMs :: "nat \<Rightarrow> real"
  clockIso :: "nat \<Rightarrow> string"
  mtimes :: "nat \<Rightarrow> real"

definition randomUUID :: "env \<Rightarrow> string \<times> env" where
  "randomUUID e = (uuids e 0, e\<lparr>uuids := \<lambda>n. uuids e (Suc n)\<rparr>)"

definition mathRandom :: "env \<Rightarrow> real \<times> env" where
  "mathRandom e = (randoms e 0, e\<lparr>randoms := \<lambda>n. randoms e (Suc n)\<rparr>)"

definition dateNow :: "env \<Rightarrow> real \<times> env" where
  "dateNow e = (clockMs e 0, e\<lparr>clockMs := \<lambda>n. clockMs e (Suc n)\<rparr>)"

definition nowIso :: "env \<Rightarrow> string \<times> env" where
  "nowIso e = (clockIso e 0, e\<lparr>clockIso := \<lambda>n. clockIso e (Suc n)\<rparr>)"

definition statMtime :: "env \<Rightarrow> real \<times> env" where
  "statMtime e = (mtimes e 0, e\<lparr>mtimes := \<lambda>n. mtimes e (Suc n)\<rparr>)"


section \<open>Scene documents (\<open>types/contracts.ts\<close>)\<close>

text \<open>
  \<open>SceneEnvelope\<close> and \<open>SceneMetadata\<close>, typed as \<open>sceneEnvelopeSchema\<close> types
  them: every element, library item and file record is an object. On such envelopes
  \<open>ensureObject\<close> and \<open>ensureArray\<close> of \<open>validators.ts\<close> are the identity.
\<close>

record engineHints =
  hasFrames :: bool
  hasEmbeddables :: bool
  hasImages :: bool

record sceneMetadata =
  sceneId :: string
  name :: string
  createdAt :: string
  updatedAt :: string
  elementCount :: nat
  fileCount :: nat
  engineHints :: engineHints
  revisionHash :: string

record sceneEnvelope =
  metadata :: sceneMetadata
  elements :: "obj list"
  appState :: obj
  files :: "(string \<times> obj) list"
  libraryItems :: "obj list"

datatype scenePatchOperation =
    SetName string
  | AddElements "obj list"
  | UpdateElements "(string \<times> obj) list"
  | DeleteElements "string list" bool
  | SetAppState obj bool
  | SetLibrary "obj list" bool
  | SetFiles "(string \<times> obj) list" bool

datatype errorCode = BAD_REQUEST | NOT_FOUND | CONFLICT | LOCKED | DEGRADED_MODE | INTERNAL

datatype appError = AppError errorCode string nat obj

fun errorCodeOf :: "appError \<Rightarrow> errorCode" where
  "errorCodeOf (AppError c m s d) = c"

section \<open>Serialisation and the revision hash (\<open>validators.ts\<close>)\<close>

definition hexDigit :: "nat \<Rightarrow> char" where
  "hexDigit n = ''0123456789abcdef'' ! n"

text \<open>The escaping of \<open>JSON.stringify\<close>: the quote, the backslash and the control
  characters.\<close>

definition escapeChar :: "char \<Rightarrow> string" where
  "escapeChar c =
    (if c = CHR 0x22 then [CHR 0x5C, CHR 0x22]
     else if c = CHR 0x5C then [CHR 0x5C, CHR 0x5C]
     else if c = CHR 0x08 then [CHR 0x5C, CHR ''b'']
     else if c = CHR 0x0C then [CHR 0x5C, CHR ''f'']
     else if c = CHR 0x0A then [CHR 0x5C, CHR ''n'']
     else if c = CHR 0x0D then [CHR 0x5C, CHR ''r'']
     else if c = CHR 0x09 then [CHR 0x5C, CHR ''t'']
     else if (of_char c :: nat) < 32
       then [CHR 0x5C, CHR ''u'', CHR ''0'', CHR ''0'',
             hexDigit (of_char c div 16), hexDigit (of_char c mod 16)]
     else [c])"

definition quote :: "string \<Rightarrow> string" where
  "quote s = CHR 0x22 # concat (map escapeChar s) @ [CHR 0x22]"

text \<open>\<open>JSON.stringify(v)\<close>: a non-finite number is written \<open>null\<close>.\<close>

fun stringify :: "runtime \<Rightarrow> json \<Rightarrow> string" where
  "stringify rt JNull = ''null''"
| "stringify rt (JBool b) = (if b then ''true'' else ''false'')"
| "stringify rt (JNum (Fin r)) = numToString rt r"
| "stringify rt (JNum NaN) = ''null''"
| "stringify rt (JNum PosInf) = ''null''"
| "stringify rt (JNum NegInf) = ''null''"
| "stringify rt (JStr s) = quote s"
| "stringify rt (JArr xs) = ''['' @ joinWith '','' (map (stringify rt) xs) @ '']''"
| "stringify rt (JObj kvs) =
     ''{'' @ joinWith '','' (map (\<lambda>p. quote (fst p) @ '':'' @ stringify rt (snd p)) kvs) @ ''}''"

text \<open>The UTF-8 bytes that \<open>hash.update(string)\<close> digests.\<close>

definition utf8 :: "string \<Rightarrow> string" where
  "utf8 s = concat (map (\<lambda>c. if (of_char c :: nat) < 128 then [c]
       else [char_of (192 + (of_char c :: nat) div 64), char_of (128 + (of_char c :: nat) mod 64)]) s)"

definition filesJson :: "(string \<times> obj) list \<Rightarrow> json" where
  "filesJson fs = JObj (map (\<lambda>p. (fst p, JObj (snd p))) fs)"

definition revisionPayload :: "obj list \<Rightarrow> obj \<Rightarrow> (string \<times> obj) list \<Rightarrow> obj list \<Rightarrow> json" where
  "revisionPayload els st fs lib =
     JObj [(''elements'', JArr (map JObj els)), (''appState'', JObj st),
           (''files'', filesJson fs), (''libraryItems'', JArr (map JObj lib))]"

definition computeRevisionHash ::
  "runtime \<Rightarrow> obj list \<Rightarrow> obj \<Rightarrow> (string \<times> obj) list \<Rightarrow> obj list \<Rightarrow> string" where
  "computeRevisionHash rt els st fs lib =
     sha256hex rt (utf8 (stringify rt (revisionPayload els st fs lib)))"

section \<open>The normalizer (\<open>validators.ts\<close>)\<close>

text \<open>\<open>Number(o.k ?? d)\<close> for a numeric default \<open>d\<close>.\<close>

definition numberOr :: "runtime \<Rightarrow> obj \<Rightarrow> string \<Rightarrow> real \<Rightarrow> json" where
  "numberOr rt ob k d = JNum (toNumber rt (coalesce (getField k ob) (JNum (Fin d))))"

text \<open>\<open>Number(o.k ?? Math.floor(Math.random() * m))\<close>: the random number is drawn only
  when the property is nullish.\<close>

definition numberOrRandom :: "runtime \<Rightarrow> obj \<Rightarrow> string \<Rightarrow> real \<Rightarrow> env \<Rightarrow> json \<times> env" where
  "numberOrRandom rt ob k m e =
     (if nullish (getField k ob)
      then (let (r, e1) = mathRandom e in (JNum (Fin (of_int \<lfloor>fmul rt r m\<rfloor>)), e1))
      else (JNum (toNumber rt (coalesce (getField k ob) JNull)), e))"

definition normalizeElement :: "runtime \<Rightarrow> obj \<Rightarrow> env \<Rightarrow> obj \<times> env" where
  "normalizeElement rt next e =
     (let (idv, e1) = (case getField ''id'' next of
                         Some (JStr s) \<Rightarrow>
                           if s \<noteq> [] then (JStr s, e)
                           else (let (u, e') = randomUUID e in (JStr u, e'))
                       | _ \<Rightarrow> (let (u, e') = randomUUID e in (JStr u, e')));
          (nonce, e2) = numberOrRandom rt next ''versionNonce'' 1000000000 e1
      in (spread
           [(''id'', idv),
            (''type'', (case getField ''type'' next of Some (JStr s) \<Rightarrow> JStr s | _ \<Rightarrow> JStr ''rectangle'')),
            (''x'', numberOr rt next ''x'' 0),
            (''y'', numberOr rt next ''y'' 0),
            (''width'', numberOr rt next ''width'' 100),
            (''height'', numberOr rt next ''height'' 100),
            (''angle'', numberOr rt next ''angle'' 0),
            (''isDeleted'', JBool (Boolean_js (getField ''isDeleted'' next))),
            (''version'', numberOr rt next ''version'' 1),
            (''versionNonce'', nonce)]
           next, e2))"

fun mapEnv :: "('a \<Rightarrow> env \<Rightarrow> 'b \<times> env) \<Rightarrow> 'a list \<Rightarrow> env \<Rightarrow> 'b list \<times> env" where
  "mapEnv f [] e = ([], e)"
| "mapEnv f (x # xs) e =
     (let (y, e1) = f x e; (ys, e2) = mapEnv f xs e1 in (y # ys, e2))"

definition normalizeElements :: "runtime \<Rightarrow> obj list \<Rightarrow> env \<Rightarrow> obj list \<times> env" where
  "normalizeElements rt els e = mapEnv (normalizeElement rt) els e"

definition hasType :: "string \<Rightarrow> obj \<Rightarrow> bool" where
  "hasType t el = (getField ''type'' el = Some (JStr t))"

definition detectEngineHints :: "obj list \<Rightarrow> engineHints" where
  "detectEngineHints els =
     \<lparr> hasFrames = list_ex (\<lambda>el. hasType ''frame'' el \<or> hasType ''magicframe'' el) els,
       hasEmbeddables = list_ex (hasType ''embeddable'') els,
       hasImages = list_ex (hasType ''image'') els \<rparr>"

definition normalizeScene :: "runtime \<Rightarrow> sceneEnvelope \<Rightarrow> env \<Rightarrow> sceneEnvelope \<times> env" where
  "normalizeScene rt scene e =
     (let (els, e1) = normalizeElements rt (elements scene) e;
          (now, e2) = nowIso e1
      in (\<lparr> metadata = (metadata scene)
              \<lparr> updatedAt := now,
                elementCount := length els,
                fileCount := length (files scene),
                engineHints := detectEngineHints els,
                revisionHash := computeRevisionHash rt els (appState scene) (files scene)
                                  (libraryItems scene) \<rparr>,
            elements = els,
            appState = appState scene,
            files = files scene,
            libraryItems = libraryItems scene \<rparr>, e2))"


section \<open>The patch engine (\<open>engines/jsonEngine.ts\<close>)\<close>

text \<open>A JavaScript \<open>Map\<close> or \<open>Set\<close> is a list in insertion order: setting a key that is
  present replaces its value in place. Keys that are arrays or objects are compared by
  structure here (JavaScript compares them by identity).\<close>

definition setAdd :: "'a \<Rightarrow> 'a list \<Rightarrow> 'a list" where
  "setAdd x xs = (if x \<in> set xs then xs else xs @ [x])"

definition mapById :: "obj list \<Rightarrow> (json option \<times> obj) list" where
  "mapById els = foldl (\<lambda>m el. setField (getField ''id'' el) el m) [] els"

definition keyFor :: "runtime \<Rightarrow> obj \<Rightarrow> string" where
  "keyFor rt item =
     toString rt (coalesce (getField ''id'' item)
                    (coalesce (getField ''name'' item) (JStr (stringify rt (JObj item)))))"

definition mergeLibraryItems :: "runtime \<Rightarrow> obj list \<Rightarrow> obj list \<Rightarrow> obj list" where
  "mergeLibraryItems rt existing incoming =
     map snd (foldl (\<lambda>m item. setField (keyFor rt item) item m)
                (foldl (\<lambda>m item. setField (keyFor rt item) item m) [] existing) incoming)"

text \<open>\<open>o.k ?? d\<close>, \<open>Array.isArray(o.k) ? o.k : d\<close> and \<open>Number(o.k ?? Date.now())\<close>.\<close>

definition fieldOr :: "obj \<Rightarrow> string \<Rightarrow> json \<Rightarrow> json" where
  "fieldOr ob k d = coalesce (getField k ob) d"

definition arrayOr :: "obj \<Rightarrow> string \<Rightarrow> json \<Rightarrow> json" where
  "arrayOr ob k d = (case getField k ob of Some (JArr xs) \<Rightarrow> JArr xs | _ \<Rightarrow> d)"

definition numberOrNow :: "runtime \<Rightarrow> obj \<Rightarrow> string \<Rightarrow> env \<Rightarrow> json \<times> env" where
  "numberOrNow rt ob k e =
     (if nullish (getField k ob)
      then (let (t, e1) = dateNow e in (JNum (Fin t), e1))
      else (JNum (toNumber rt (coalesce (getField k ob) JNull)), e))"

definition createElementFromSkeleton :: "runtime \<Rightarrow> obj \<Rightarrow> env \<Rightarrow> obj \<times> env" where
  "createElementFromSkeleton rt skeleton e =
     (let (idv, e1) = (case getField ''id'' skeleton of
                         Some (JStr s) \<Rightarrow> (JStr s, e)
                       | _ \<Rightarrow> (let (u, e') = randomUUID e in (JStr u, e')));
          (seed, e2) = numberOrRandom rt skeleton ''seed'' 1000000 e1;
          (nonce, e3) = numberOrRandom rt skeleton ''versionNonce'' 1000000000 e2;
          (upd, e4) = numberOrNow rt skeleton ''updated'' e3
      in (spread
           [(''id'', idv),
            (''type'', (case getField ''type'' skeleton of Some (JStr s) \<Rightarrow> JStr s
                        | _ \<Rightarrow> JStr ''rectangle'')),
            (''x'', numberOr rt skeleton ''x'' 0),
            (''y'', numberOr rt skeleton ''y'' 0),
            (''width'', numberOr rt skeleton ''width'' 120),
            (''height'', numberOr rt skeleton ''height'' 80),
            (''angle'', numberOr rt skeleton ''angle'' 0),
            (''strokeColor'', fieldOr skeleton ''strokeColor'' (JStr ''#1e1e1e'')),
            (''backgroundColor'', fieldOr skeleton ''backgroundColor'' (JStr ''transparent'')),
            (''fillStyle'', fieldOr skeleton ''fillStyle'' (JStr ''hachure'')),
            (''strokeWidth'', numberOr rt skeleton ''strokeWidth'' 1),
            (''strokeStyle'', fieldOr skeleton ''strokeStyle'' (JStr ''solid'')),
            (''roughness'', numberOr rt skeleton ''roughness'' 1),
            (''opacity'', numberOr rt skeleton ''opacity'' 100),
            (''groupIds'', arrayOr skeleton ''groupIds'' (JArr [])),
            (''frameId'', fieldOr skeleton ''frameId'' JNull),
            (''roundness'', fieldOr skeleton ''roundness'' JNull),
            (''seed'', seed),
            (''version'', numberOr rt skeleton ''version'' 1),
            (''versionNonce'', nonce),
            (''isDeleted'', JBool (Boolean_js (getField ''isDeleted'' skeleton))),
            (''boundElements'', arrayOr skeleton ''boundElements'' JNull),
            (''updated'', upd),
            (''link'', fieldOr skeleton ''link'' JNull),
            (''locked'', JBool (Boolean_js (getField ''locked'' skeleton)))]
           skeleton, e4))"

definition createElementsFromSkeleton :: "runtime \<Rightarrow> obj list \<Rightarrow> env \<Rightarrow> obj list \<times> env" where
  "createElementsFromSkeleton rt skeletons e = mapEnv (createElementFromSkeleton rt) skeletons e"

text \<open>The ids that \<open>addElements\<close> reports: \<open>if (element?.id) changedElementIds.add(element.id)\<close>.\<close>

definition addCreatedIds :: "obj list \<Rightarrow> json list \<Rightarrow> json list" where
  "addCreatedIds created changed =
     foldl (\<lambda>ch el. (case getField ''id'' el of
                        Some v \<Rightarrow> if truthy v then setAdd v ch else ch
                      | None \<Rightarrow> ch)) changed created"

text \<open>\<open>{...existing, ...patch, version: Number(existing.version ?? 1) + 1, updated: Date.now()}\<close>\<close>

definition bumped :: "runtime \<Rightarrow> obj \<Rightarrow> obj \<Rightarrow> real \<Rightarrow> obj" where
  "bumped rt existing body t =
     setField ''updated'' (JNum (Fin t))
       (setField ''version'' (JNum (succNum rt (toNumber rt (fieldOr existing ''version'' (JNum (Fin 1))))))
          body)"

text \<open>The loop of the \<open>updateElements\<close> case over \<open>operation.elements\<close>: the first
  update whose id is not a key of \<open>currentById\<close> throws.\<close>

fun updateLoop ::
  "runtime \<Rightarrow> (string \<times> obj) list \<Rightarrow> (json option \<times> obj) list \<Rightarrow> json list \<Rightarrow> env
   \<Rightarrow> (appError + ((json option \<times> obj) list \<times> json list)) \<times> env" where
  "updateLoop rt [] currentById changed e = (Inr (currentById, changed), e)"
| "updateLoop rt (u # us) currentById changed e =
     (case getField (Some (JStr (fst u))) currentById of
        None \<Rightarrow>
          (Inl (AppError NOT_FOUND (''Element not found: '' @ fst u) 404
                  [(''elementId'', JStr (fst u))]), e)
      | Some existing \<Rightarrow>
          (let (t, e1) = dateNow e
           in updateLoop rt us
                (setField (Some (JStr (fst u)))
                   (bumped rt existing (spread (spread [] existing) (snd u)) t) currentById)
                (setAdd (JStr (fst u)) changed) e1))"

text \<open>The \<open>map\<close> and \<open>filter(Boolean)\<close> of the \<open>deleteElements\<close> case.\<close>

fun deleteLoop ::
  "runtime \<Rightarrow> string list \<Rightarrow> bool \<Rightarrow> obj list \<Rightarrow> json list \<Rightarrow> env
   \<Rightarrow> obj list \<times> json list \<times> env" where
  "deleteLoop rt ids hardDelete [] changed e = ([], changed, e)"
| "deleteLoop rt ids hardDelete (el # els) changed e =
     (if (case getField ''id'' el of Some (JStr s) \<Rightarrow> s \<in> set ids | _ \<Rightarrow> False)
      then (let changed1 = (case getField ''id'' el of Some v \<Rightarrow> setAdd v changed
                            | None \<Rightarrow> changed)
            in if hardDelete then deleteLoop rt ids hardDelete els changed1 e
               else (let (t, e1) = dateNow e;
                         el1 = bumped rt el (setField ''isDeleted'' (JBool True) (spread [] el)) t;
                         (rest, changed2, e2) = deleteLoop rt ids hardDelete els changed1 e1
                     in (el1 # rest, changed2, e2)))
      else (let (rest, changed2, e2) = deleteLoop rt ids hardDelete els changed e
            in (el # rest, changed2, e2)))"

text \<open>One iteration of the loop of \<open>applyPatch\<close> over the operations, on the working copy
  \<open>next\<close> and the set \<open>changedElementIds\<close>.\<close>

fun applyOperation ::
  "runtime \<Rightarrow> scenePatchOperation \<Rightarrow> sceneEnvelope \<Rightarrow> json list \<Rightarrow> env
   \<Rightarrow> (appError + (sceneEnvelope \<times> json list)) \<times> env" where
  "applyOperation rt (SetName n) next changed e =
     (Inr (next\<lparr>metadata := (metadata next)\<lparr>name := n\<rparr>\<rparr>, changed), e)"
| "applyOperation rt (AddElements skeletons) next changed e =
     (let (created, e1) = createElementsFromSkeleton rt skeletons e;
          (normalized, e2) = normalizeElements rt (elements next @ created) e1
      in (Inr (next\<lparr>elements := normalized\<rparr>, addCreatedIds created changed), e2))"
| "applyOperation rt (UpdateElements updates) next changed e =
     (case updateLoop rt updates (mapById (elements next)) changed e of
        (Inl err, e1) \<Rightarrow> (Inl err, e1)
      | (Inr (currentById, changed1), e1) \<Rightarrow>
          (let (normalized, e2) = normalizeElements rt (map snd currentById) e1
           in (Inr (next\<lparr>elements := normalized\<rparr>, changed1), e2)))"
| "applyOperation rt (DeleteElements ids hardDelete) next changed e =
     (let (els, changed1, e1) = deleteLoop rt ids hardDelete (elements next) changed e
      in (Inr (next\<lparr>elements := els\<rparr>, changed1), e1))"
| "applyOperation rt (SetAppState st merge) next changed e =
     (Inr (next\<lparr>appState := (if merge then spread (spread [] (appState next)) st
                                else spread [] st)\<rparr>, changed), e)"
| "applyOperation rt (SetLibrary items merge) next changed e =
     (Inr (next\<lparr>libraryItems := (if merge then mergeLibraryItems rt (libraryItems next) items
                                    else items)\<rparr>, changed), e)"
| "applyOperation rt (SetFiles fs merge) next changed e =
     (Inr (next\<lparr>files := (if merge then spread (spread [] (files next)) fs
                             else spread [] fs)\<rparr>, changed), e)"

fun applyOperations ::
  "runtime \<Rightarrow> scenePatchOperation list \<Rightarrow> sceneEnvelope \<Rightarrow> json list \<Rightarrow> env
   \<Rightarrow> (appError + (sceneEnvelope \<times> json list)) \<times> env" where
  "applyOperations rt [] next changed e = (Inr (next, changed), e)"
| "applyOperations rt (operation # rest) next changed e =
     (case applyOperation rt operation next changed e of
        (Inl err, e1) \<Rightarrow> (Inl err, e1)
      | (Inr (next1, changed1), e1) \<Rightarrow> applyOperations rt rest next1 changed1 e1)"

text \<open>\<open>[...changedElementIds].sort()\<close>: the default sort is stable and compares the
  elements as strings.\<close>

definition sortIds :: "runtime \<Rightarrow> json list \<Rightarrow> json list" where
  "sortIds rt ids = sort_key (toString rt) ids"

definition applyPatch ::
  "runtime \<Rightarrow> sceneEnvelope \<Rightarrow> scenePatchOperation list \<Rightarrow> env
   \<Rightarrow> (appError + (sceneEnvelope \<times> json list)) \<times> env" where
  "applyPatch rt scene operations e =
     (case applyOperations rt operations scene [] e of
        (Inl err, e1) \<Rightarrow> (Inl err, e1)
      | (Inr (next, changedElementIds), e1) \<Rightarrow>
          (let (normalized, e2) = normalizeScene rt next e1;
               rehashed = normalized\<lparr>metadata := (metadata normalized)
                 \<lparr>revisionHash := computeRevisionHash rt (elements normalized)
                    (appState normalized) (files normalized) (libraryItems normalized)\<rparr>\<rparr>
           in (Inr (rehashed, sortIds rt changedElementIds), e2)))"


section \<open>The diagram quality pass (\<open>domain/diagramQuality.ts\<close>)\<close>

datatype qualitySeverity = SevError | SevWarning

datatype issueCode = CONNECTOR_UNBOUND | TEXT_OVERFLOW

record diagramQualityIssue =
  issueCode :: issueCode
  severity :: qualitySeverity
  message :: string
  issueElementId :: string
  details :: obj

record point =
  pointX :: real
  pointY :: real

record bounds =
  bX1 :: real
  bY1 :: real
  bX2 :: real
  bY2 :: real
  bCx :: real
  bCy :: real

definition CONNECTOR_TYPES :: "string list" where
  "CONNECTOR_TYPES = [''arrow'', ''line'']"

text \<open>The double that the literal \<open>0.58\<close> denotes.\<close>

definition OVERFLOW_CHAR_FACTOR :: real where
  "OVERFLOW_CHAR_FACTOR = 5224175567749775 / 9007199254740992"

definition DEFAULT_FONT_SIZE :: real where
  "DEFAULT_FONT_SIZE = 20"

definition DEFAULT_LINE_HEIGHT :: real where
  "DEFAULT_LINE_HEIGHT = 5 / 4"

definition CONTAINER_PADDING :: real where
  "CONTAINER_PADDING = 16"

definition num :: "runtime \<Rightarrow> json option \<Rightarrow> real \<Rightarrow> real" where
  "num rt v fallback = (case Number_js rt v of Fin r \<Rightarrow> r | _ \<Rightarrow> fallback)"

definition boundsFor :: "runtime \<Rightarrow> obj \<Rightarrow> bounds" where
  "boundsFor rt element =
     (let x = num rt (getField ''x'' element) 0;
          y = num rt (getField ''y'' element) 0;
          width = max 0 (num rt (getField ''width'' element) 0);
          height = max 0 (num rt (getField ''height'' element) 0);
          x1 = min x (fadd rt x width);
          y1 = min y (fadd rt y height);
          x2 = max x (fadd rt x width);
          y2 = max y (fadd rt y height)
      in \<lparr> bX1 = x1, bY1 = y1, bX2 = x2, bY2 = y2,
           bCx = fdiv rt (fadd rt x1 x2) 2, bCy = fdiv rt (fadd rt y1 y2) 2 \<rparr>)"

definition pointInsideBounds :: "runtime \<Rightarrow> point \<Rightarrow> bounds \<Rightarrow> real \<Rightarrow> bool" where
  "pointInsideBounds rt p b tolerance =
     (pointX p \<ge> fsub rt (bX1 b) tolerance \<and> pointX p \<le> fadd rt (bX2 b) tolerance \<and>
      pointY p \<ge> fsub rt (bY1 b) tolerance \<and> pointY p \<le> fadd rt (bY2 b) tolerance)"

definition pointDistance :: "runtime \<Rightarrow> point \<Rightarrow> bounds \<Rightarrow> real" where
  "pointDistance rt p b =
     (let dx = fsub rt (pointX p) (bCx b); dy = fsub rt (pointY p) (bCy b)
      in fsqrt rt (fadd rt (fmul rt dx dx) (fmul rt dy dy)))"

text \<open>\<open>a[i]\<close> on an array: \<open>undefined\<close> out of range.\<close>

definition nthOpt :: "'a list \<Rightarrow> nat \<Rightarrow> 'a option" where
  "nthOpt xs i = (if i < length xs then Some (xs ! i) else None)"

definition connectorEndpoints :: "runtime \<Rightarrow> obj \<Rightarrow> point \<times> point" where
  "connectorEndpoints rt connector =
     (let x = num rt (getField ''x'' connector) 0;
          y = num rt (getField ''y'' connector) 0
      in case getField ''points'' connector of
           Some (JArr (p # ps)) \<Rightarrow>
             (let first = (case p of JArr a \<Rightarrow> a | _ \<Rightarrow> [JNum (Fin 0), JNum (Fin 0)]);
                  lst = (case last (p # ps) of JArr a \<Rightarrow> a | _ \<Rightarrow> first)
              in (\<lparr> pointX = fadd rt x (num rt (nthOpt first 0) 0),
                    pointY = fadd rt y (num rt (nthOpt first 1) 0) \<rparr>,
                  \<lparr> pointX = fadd rt x (num rt (nthOpt lst 0) 0),
                    pointY = fadd rt y (num rt (nthOpt lst 1) 0) \<rparr>))
         | _ \<Rightarrow>
             (\<lparr> pointX = x, pointY = y \<rparr>,
              \<lparr> pointX = fadd rt x (num rt (getField ''width'' connector) 0),
                pointY = fadd rt y (num rt (getField ''height'' connector) 0) \<rparr>))"

text \<open>\<open>String(element.id ?? "")\<close> and \<open>String(element.type ?? "")\<close>\<close>

definition idOf :: "runtime \<Rightarrow> obj \<Rightarrow> string" where
  "idOf rt element = toString rt (fieldOr element ''id'' (JStr []))"

definition typeOf :: "runtime \<Rightarrow> obj \<Rightarrow> string" where
  "typeOf rt element = toString rt (fieldOr element ''type'' (JStr []))"

text \<open>The loop of \<open>inferBindingTargetId\<close>, with \<open>best\<close> as its accumulator.\<close>

fun inferLoop ::
  "runtime \<Rightarrow> point \<Rightarrow> string \<Rightarrow> obj list \<Rightarrow> (string \<times> real) option \<Rightarrow> (string \<times> real) option" where
  "inferLoop rt p excludeId [] best = best"
| "inferLoop rt p excludeId (element # rest) best =
     (if idOf rt element = [] \<or> idOf rt element = excludeId then inferLoop rt p excludeId rest best
      else if typeOf rt element \<in> set CONNECTOR_TYPES then inferLoop rt p excludeId rest best
      else if Boolean_js (getField ''isDeleted'' element) then inferLoop rt p excludeId rest best
      else if \<not> pointInsideBounds rt p (boundsFor rt element) 12 then inferLoop rt p excludeId rest best
      else (let distance = pointDistance rt p (boundsFor rt element)
            in if (case best of None \<Rightarrow> True | Some b \<Rightarrow> distance < snd b)
               then inferLoop rt p excludeId rest (Some (idOf rt element, distance))
               else inferLoop rt p excludeId rest best))"

definition inferBindingTargetId :: "runtime \<Rightarrow> point \<Rightarrow> obj list \<Rightarrow> string \<Rightarrow> string option" where
  "inferBindingTargetId rt p candidates excludeId =
     map_option fst (inferLoop rt p excludeId candidates None)"

definition ensureBoundElementsRef :: "runtime \<Rightarrow> obj \<Rightarrow> string \<Rightarrow> string \<Rightarrow> obj" where
  "ensureBoundElementsRef rt target connectorId connectorType =
     (let existing = (case getField ''boundElements'' target of Some (JArr xs) \<Rightarrow> xs | _ \<Rightarrow> []);
          found = list_ex (\<lambda>entry. case entry of
                      JObj ob \<Rightarrow> toString rt (fieldOr ob ''id'' (JStr [])) = connectorId
                    | JArr xs \<Rightarrow> [] = connectorId
                    | _ \<Rightarrow> False) existing
      in if \<not> found
         then setField ''boundElements''
                (JArr (existing @ [JObj [(''id'', JStr connectorId), (''type'', JStr connectorType)]]))
                target
         else target)"

definition setBinding :: "obj \<Rightarrow> string \<Rightarrow> string \<Rightarrow> obj" where
  "setBinding connector side targetId =
     setField side (JObj [(''elementId'', JStr targetId), (''focus'', JNum (Fin 0)),
                          (''gap'', JNum (Fin 0))]) connector"

definition extractBindingId :: "json option \<Rightarrow> string option" where
  "extractBindingId v =
     (case v of
        Some (JObj ob) \<Rightarrow>
          (case getField ''elementId'' ob of
             Some (JStr s) \<Rightarrow> if s \<noteq> [] then Some s else None
           | _ \<Rightarrow> None)
      | _ \<Rightarrow> None)"

subsection \<open>Text wrapping\<close>

definition LF :: char where "LF = CHR 0x0A"

definition CR :: char where "CR = CHR 0x0D"

text \<open>The characters that \<open>\s\<close> matches among the 8-bit ones.\<close>

definition isSpace :: "char \<Rightarrow> bool" where
  "isSpace c = (c \<in> set [CHR 0x09, CHR 0x0A, CHR 0x0B, CHR 0x0C, CHR 0x0D, CHR 0x20, CHR 0xA0])"

text \<open>\<open>text.replace(/\r\n/g, "\n")\<close>\<close>

fun replaceCRLF :: "string \<Rightarrow> string" where
  "replaceCRLF (c # d # rest) =
     (if c = CR \<and> d = LF then LF # replaceCRLF rest else c # replaceCRLF (d # rest))"
| "replaceCRLF s = s"

text \<open>\<open>s.split(sep)\<close> for a separator of one character: the pieces between the
  separators, the empty ones included.\<close>

fun splitWhen :: "(char \<Rightarrow> bool) \<Rightarrow> string \<Rightarrow> string list" where
  "splitWhen P [] = [[]]"
| "splitWhen P (c # s) =
     (if P c then [] # splitWhen P s
      else (case splitWhen P s of w # ws \<Rightarrow> (c # w) # ws | [] \<Rightarrow> [[c]]))"

definition splitLines :: "string \<Rightarrow> string list" where
  "splitLines s = splitWhen (\<lambda>c. c = LF) s"

text \<open>\<open>paragraph.split(/\s+/).filter(Boolean)\<close>\<close>

definition wordsOf :: "string \<Rightarrow> string list" where
  "wordsOf paragraph = filter (\<lambda>w. w \<noteq> []) (splitWhen isSpace paragraph)"

text \<open>The greedy loop of \<open>wrapText\<close> over the words after the first, with \<open>current\<close>
  as the line being filled.\<close>

fun packWords :: "real \<Rightarrow> string \<Rightarrow> string list \<Rightarrow> string list" where
  "packWords maxCharsPerLine current [] = [current]"
| "packWords maxCharsPerLine current (nextWord # rest) =
     (if real (length (current @ '' '' @ nextWord)) \<le> maxCharsPerLine
      then packWords maxCharsPerLine (current @ '' '' @ nextWord) rest
      else current # packWords maxCharsPerLine nextWord rest)"

definition wrapParagraph :: "real \<Rightarrow> string \<Rightarrow> string" where
  "wrapParagraph maxCharsPerLine paragraph =
     (case wordsOf paragraph of
        [] \<Rightarrow> []
      | w # ws \<Rightarrow> joinWith [LF] (packWords maxCharsPerLine w ws))"

definition wrapText :: "string \<Rightarrow> real \<Rightarrow> string" where
  "wrapText text maxCharsPerLine =
     joinWith [LF] (map (wrapParagraph maxCharsPerLine) (splitLines (replaceCRLF text)))"

definition estimateTextWidth :: "runtime \<Rightarrow> string \<Rightarrow> real \<Rightarrow> real" where
  "estimateTextWidth rt text fontSize =
     fmul rt (fmul rt (real (foldl (\<lambda>m line. max m (length line)) 0 (splitLines text))) fontSize)
       OVERFLOW_CHAR_FACTOR"


subsection \<open>The pass\<close>

text \<open>
  \<open>applyDiagramQuality\<close> copies the elements, indexes the copies by id and then mutates
  them in place while it walks over them, so a later iteration sees what an earlier one
  wrote. The model keeps the copies in a list addressed by position; \<open>idToElement\<close> maps an
  id to the position of the object that the JavaScript \<open>Map\<close> holds for it (the last
  element with that id).
\<close>

record qstate =
  qElements :: "obj list"
  qIssues :: "diagramQualityIssue list"
  qFixes :: nat

record diagramQualityResult =
  resultScene :: sceneEnvelope
  resultIssues :: "diagramQualityIssue list"
  fixesApplied :: nat

definition idToElement :: "runtime \<Rightarrow> obj list \<Rightarrow> (string \<times> nat) list" where
  "idToElement rt els =
     foldl (\<lambda>m i. if idOf rt (els ! i) \<noteq> [] then setField (idOf rt (els ! i)) i m else m)
       [] [0..<length els]"

definition stringField :: "obj \<Rightarrow> string \<Rightarrow> string option" where
  "stringField ob k = (case getField k ob of Some (JStr s) \<Rightarrow> Some s | _ \<Rightarrow> None)"

text \<open>The closure \<open>resolveTarget\<close>: a string is truthy when it is not empty.\<close>

definition resolveTarget ::
  "runtime \<Rightarrow> (string \<times> nat) list \<Rightarrow> obj list \<Rightarrow> string \<Rightarrow> string option \<Rightarrow> string option
   \<Rightarrow> point \<Rightarrow> string option" where
  "resolveTarget rt idx els elementId hintId currentId endpoint =
     (if (case currentId of Some c \<Rightarrow> c \<noteq> [] \<and> hasKey c idx | None \<Rightarrow> False) then currentId
      else if (case hintId of Some h \<Rightarrow> h \<noteq> [] \<and> hasKey h idx | None \<Rightarrow> False) then hintId
      else inferBindingTargetId rt endpoint els elementId)"

text \<open>One side of a connector: report it unbound, or write the binding and the
  back-reference. The target is always a key of \<open>idToElement\<close> (lemma
  \<open>resolveTarget_hasKey\<close> below), so the \<open>None\<close> branch is never taken.\<close>

definition bindSide ::
  "runtime \<Rightarrow> bool \<Rightarrow> (string \<times> nat) list \<Rightarrow> nat \<Rightarrow> string \<Rightarrow> string \<Rightarrow> string \<Rightarrow> string
   \<Rightarrow> string option \<Rightarrow> string option \<Rightarrow> qstate \<Rightarrow> qstate" where
  "bindSide rt fix idx i elementId type side sideName bindingId resolvedId st =
     (case resolvedId of
        None \<Rightarrow>
          st\<lparr>qIssues := qIssues st @
            [\<lparr> issueCode = CONNECTOR_UNBOUND, severity = SevError,
               message = ''Connector '' @ sideName @ '' is not bound to a valid element'',
               issueElementId = elementId, details = [(''side'', JStr sideName)] \<rparr>]\<rparr>
      | Some r \<Rightarrow>
          if bindingId = None \<or> bindingId \<noteq> Some r
          then (if fix
                then (let els1 = (qElements st)[i := setBinding (qElements st ! i) side r];
                          els2 = (case getField r idx of
                                    Some j \<Rightarrow> els1[j := ensureBoundElementsRef rt (els1 ! j) elementId type]
                                  | None \<Rightarrow> els1)
                      in st\<lparr>qElements := els2, qFixes := qFixes st + 1\<rparr>)
                else st)
          else st)"

definition processConnector :: "runtime \<Rightarrow> bool \<Rightarrow> (string \<times> nat) list \<Rightarrow> nat \<Rightarrow> qstate \<Rightarrow> qstate" where
  "processConnector rt fix idx i st =
     (let element = qElements st ! i;
          elementId = idOf rt element;
          type = typeOf rt element;
          (startp, endp) = connectorEndpoints rt element;
          customData = (case getField ''customData'' element of Some (JObj ob) \<Rightarrow> ob | _ \<Rightarrow> []);
          fromHint = stringField customData ''fromId'';
          toHint = stringField customData ''toId'';
          startBindingId = extractBindingId (getField ''startBinding'' element);
          endBindingId = extractBindingId (getField ''endBinding'' element);
          resolvedStartId = resolveTarget rt idx (qElements st) elementId fromHint startBindingId startp;
          resolvedEndId = resolveTarget rt idx (qElements st) elementId toHint endBindingId endp;
          st1 = bindSide rt fix idx i elementId type ''startBinding'' ''start''
                  startBindingId resolvedStartId st
      in bindSide rt fix idx i elementId type ''endBinding'' ''end'' endBindingId resolvedEndId st1)"

text \<open>The block under \<open>if (fix)\<close> of the text branch: the element with its text rewrapped,
  its width set and its height grown.\<close>

definition rewrapText :: "runtime \<Rightarrow> obj \<Rightarrow> string \<Rightarrow> real \<Rightarrow> real \<Rightarrow> real \<Rightarrow> obj" where
  "rewrapText rt element text fontSize lineHeight maxTextWidth =
     (let maxChars = max 8 (of_int \<lfloor>fdiv rt maxTextWidth (fmul rt fontSize OVERFLOW_CHAR_FACTOR)\<rfloor>);
          wrapped = wrapText text maxChars;
          lines = length (splitLines wrapped);
          el1 = setField ''text'' (JStr wrapped) element;
          el2 = setField ''originalText'' (JStr wrapped) el1;
          el3 = setField ''width'' (JNum (Fin maxTextWidth)) el2
      in setField ''height''
           (JNum (Fin (max (num rt (getField ''height'' el3) 0)
              (of_int \<lceil>fmul rt (fmul rt (real lines) fontSize) lineHeight\<rceil>)))) el3)"

text \<open>The text branch once the container is resolved and live.\<close>

definition checkOverflow ::
  "runtime \<Rightarrow> bool \<Rightarrow> nat \<Rightarrow> string \<Rightarrow> obj \<Rightarrow> qstate \<Rightarrow> qstate" where
  "checkOverflow rt fix i containerId container st =
     (let element = qElements st ! i;
          text = toString rt (coalesce (getField ''text'' element)
                   (coalesce (getField ''originalText'' element) (JStr [])));
          fontSize = max 8 (num rt (getField ''fontSize'' element) DEFAULT_FONT_SIZE);
          lineHeight = max 1 (num rt (getField ''lineHeight'' element) DEFAULT_LINE_HEIGHT);
          containerWidth = max 40 (num rt (getField ''width'' container) 40);
          maxTextWidth = max 32 (fsub rt containerWidth CONTAINER_PADDING);
          estimatedWidth = estimateTextWidth rt text fontSize
      in if estimatedWidth > maxTextWidth
         then
           (let st1 = st\<lparr>qIssues := qIssues st @
                  [\<lparr> issueCode = TEXT_OVERFLOW, severity = SevWarning,
                     message = ''Text overflows its container width'',
                     issueElementId = idOf rt element,
                     details = [(''containerId'', JStr containerId),
                                (''estimatedWidth'', JNum (Fin estimatedWidth)),
                                (''maxTextWidth'', JNum (Fin maxTextWidth))] \<rparr>]\<rparr>
            in if fix
               then st1\<lparr>qElements := (qElements st1)
                              [i := rewrapText rt element text fontSize lineHeight maxTextWidth],
                        qFixes := qFixes st1 + 1\<rparr>
               else st1)
         else st)"

definition processText :: "runtime \<Rightarrow> bool \<Rightarrow> (string \<times> nat) list \<Rightarrow> nat \<Rightarrow> qstate \<Rightarrow> qstate" where
  "processText rt fix idx i st =
     (case stringField (qElements st ! i) ''containerId'' of
        None \<Rightarrow> st
      | Some containerId \<Rightarrow>
          if containerId = [] then st
          else (case getField containerId idx of
                  None \<Rightarrow> st
                | Some j \<Rightarrow>
                    if Boolean_js (getField ''isDeleted'' (qElements st ! j)) then st
                    else checkOverflow rt fix i containerId (qElements st ! j) st))"

definition processElement :: "runtime \<Rightarrow> bool \<Rightarrow> (string \<times> nat) list \<Rightarrow> qstate \<Rightarrow> nat \<Rightarrow> qstate" where
  "processElement rt fix idx st i =
     (let element = qElements st ! i
      in if idOf rt element = [] then st
         else (let type = typeOf rt element;
                   st1 = (if type \<in> set CONNECTOR_TYPES then processConnector rt fix idx i st else st)
               in if type = ''text'' then processText rt fix idx i st1 else st1))"

definition applyDiagramQuality :: "runtime \<Rightarrow> sceneEnvelope \<Rightarrow> bool \<Rightarrow> diagramQualityResult" where
  "applyDiagramQuality rt scene fix =
     (let els = elements scene;
          st = foldl (processElement rt fix (idToElement rt els))
                 \<lparr> qElements = els, qIssues = [], qFixes = 0 \<rparr> [0..<length els]
      in \<lparr> resultScene = scene\<lparr>elements := qElements st\<rparr>,
           resultIssues = qIssues st,
           fixesApplied = qFixes st \<rparr>)"

section \<open>The document store (\<open>domain/sceneStore.ts\<close>, \<open>utils/pathSafety.ts\<close>)\<close>

definition sceneIdChar :: "char \<Rightarrow> bool" where
  "sceneIdChar c =
     (let n = (of_char c :: nat)
      in (97 \<le> n \<and> n \<le> 122) \<or> (65 \<le> n \<and> n \<le> 90) \<or> (48 \<le> n \<and> n \<le> 57) \<or>
         c = CHR ''_'' \<or> c = CHR ''-'')"

definition sanitizeSceneId :: "string \<Rightarrow> appError + string" where
  "sanitizeSceneId sid =
     (if sid \<noteq> [] \<and> list_all sceneIdChar sid then Inr sid
      else Inl (AppError BAD_REQUEST ''Invalid sceneId format'' 400 [(''sceneId'', JStr sid)]))"

text \<open>
  The store is the directory of scene files and the in-memory cache. A file is its
  modification time and its parsed content. What \<open>JSON.parse\<close> reads back from what
  \<open>JSON.stringify\<close> wrote is the value with its non-finite numbers replaced by \<open>null\<close>.
  File-system faults are not modelled.
\<close>

fun jsonRoundTrip :: "json \<Rightarrow> json" where
  "jsonRoundTrip (JNum (Fin r)) = JNum (Fin r)"
| "jsonRoundTrip (JNum n) = JNull"
| "jsonRoundTrip (JArr xs) = JArr (map jsonRoundTrip xs)"
| "jsonRoundTrip (JObj kvs) = JObj (map (\<lambda>p. (fst p, jsonRoundTrip (snd p))) kvs)"
| "jsonRoundTrip v = v"

definition objRoundTrip :: "obj \<Rightarrow> obj" where
  "objRoundTrip ob = map (\<lambda>p. (fst p, jsonRoundTrip (snd p))) ob"

definition persisted :: "sceneEnvelope \<Rightarrow> sceneEnvelope" where
  "persisted scene =
     \<lparr> metadata = metadata scene,
       elements = map objRoundTrip (elements scene),
       appState = objRoundTrip (appState scene),
       files = map (\<lambda>p. (fst p, objRoundTrip (snd p))) (files scene),
       libraryItems = map objRoundTrip (libraryItems scene) \<rparr>"

record sceneStore =
  disk :: "string \<rightharpoonup> real \<times> sceneEnvelope"
  cache :: "string \<rightharpoonup> real \<times> sceneEnvelope"

definition load :: "string \<Rightarrow> sceneStore \<Rightarrow> (appError + sceneEnvelope) \<times> sceneStore" where
  "load sid st =
     (case sanitizeSceneId sid of
        Inl err \<Rightarrow> (Inl err, st)
      | Inr safeId \<Rightarrow>
          (case disk st safeId of
             None \<Rightarrow> (Inl (AppError NOT_FOUND (''Scene not found: '' @ sid) 404
                               [(''sceneId'', JStr sid)]), st)
           | Some (mtimeMs, parsed) \<Rightarrow>
               (case cache st sid of
                  Some (cachedMtime, cachedScene) \<Rightarrow>
                    if cachedMtime = mtimeMs then (Inr cachedScene, st)
                    else (Inr parsed, st\<lparr>cache := (cache st)(sid \<mapsto> (mtimeMs, parsed))\<rparr>)
                | None \<Rightarrow> (Inr parsed, st\<lparr>cache := (cache st)(sid \<mapsto> (mtimeMs, parsed))\<rparr>))))"

text \<open>\<open>save\<close> names its temporary file after \<open>Date.now()\<close> and \<open>Math.random()\<close>, writes it,
  renames it onto the scene file and caches the scene under the new modification time.\<close>

definition save :: "sceneEnvelope \<Rightarrow> sceneStore \<Rightarrow> env \<Rightarrow> (appError + unit) \<times> sceneStore \<times> env" where
  "save scene st e =
     (case sanitizeSceneId (sceneId (metadata scene)) of
        Inl err \<Rightarrow> (Inl err, st, e)
      | Inr safeId \<Rightarrow>
          (let (t, e1) = dateNow e;
               (r, e2) = mathRandom e1;
               (mtimeMs, e3) = statMtime e2
           in (Inr (),
               st\<lparr>disk := (disk st)(safeId \<mapsto> (mtimeMs, persisted scene)),
                  cache := (cache st)(sceneId (metadata scene) \<mapsto> (mtimeMs, scene))\<rparr>,
               e3)))"

definition sceneSuffix :: string where
  "sceneSuffix = ''.excalidraw.json''"

definition endsWith :: "string \<Rightarrow> string \<Rightarrow> bool" where
  "endsWith s suf = (length suf \<le> length s \<and> drop (length s - length suf) s = suf)"

text \<open>The loop of \<open>listMetadata\<close> over the scene files of the directory.\<close>

fun loadAll :: "string list \<Rightarrow> sceneStore \<Rightarrow> (appError + sceneMetadata list) \<times> sceneStore" where
  "loadAll [] st = (Inr [], st)"
| "loadAll (fileName # rest) st =
     (case load (take (length fileName - length sceneSuffix) fileName) st of
        (Inl err, st1) \<Rightarrow> (Inl err, st1)
      | (Inr scene, st1) \<Rightarrow>
          (case loadAll rest st1 of
             (Inl err, st2) \<Rightarrow> (Inl err, st2)
           | (Inr output, st2) \<Rightarrow> (Inr (metadata scene # output), st2)))"

text \<open>
  \<open>output.sort((a, b) => b.updatedAt.localeCompare(a.updatedAt))\<close>: \<open>Array.prototype.sort\<close>
  is stable. The timestamps are compared as lists of characters, which is how
  \<open>localeCompare\<close> orders the fixed-format strings that \<open>toISOString\<close> produces.
\<close>

fun insertDesc :: "sceneMetadata \<Rightarrow> sceneMetadata list \<Rightarrow> sceneMetadata list" where
  "insertDesc m [] = [m]"
| "insertDesc m (x # xs) =
     (if updatedAt x \<le> updatedAt m then m # x # xs else x # insertDesc m xs)"

definition sortByUpdatedAtDesc :: "sceneMetadata list \<Rightarrow> sceneMetadata list" where
  "sortByUpdatedAtDesc ms = foldr insertDesc ms []"

text \<open>\<open>dirEntries\<close> is what \<open>readdir\<close> returns: the names of the files of the scene
  directory, in the order of the operating system.\<close>

definition listMetadata ::
  "string list \<Rightarrow> sceneStore \<Rightarrow> (appError + sceneMetadata list) \<times> sceneStore" where
  "listMetadata dirEntries st =
     (case loadAll (filter (\<lambda>f. endsWith f sceneSuffix) dirEntries) st of
        (Inl err, st1) \<Rightarrow> (Inl err, st1)
      | (Inr output, st1) \<Rightarrow> (Inr (sortByUpdatedAtDesc output), st1))"

section \<open>The scene service (\<open>domain/sceneService.ts\<close>)\<close>


record fileInput =
  inputFileId :: "string option"
  mimeType :: string
  base64 :: string

record attachResult =
  fileId :: string
  deduplicated :: bool
  sizeBytes :: nat

definition MAX_FILE_BYTES :: nat where
  "MAX_FILE_BYTES = 10 * 1024 * 1024"

definition attachFile ::
  "runtime \<Rightarrow> string \<Rightarrow> fileInput \<Rightarrow> sceneStore \<Rightarrow> env
   \<Rightarrow> (appError + attachResult) \<times> sceneStore \<times> env" where
  "attachFile rt sid input st e =
     (let buffer = base64decode rt (base64 input)
      in if length buffer > MAX_FILE_BYTES
         then (Inl (AppError BAD_REQUEST ''File exceeds max size'' 400
                      [(''maxBytes'', JNum (Fin (real MAX_FILE_BYTES))),
                       (''actualBytes'', JNum (Fin (real (length buffer))))]), st, e)
         else
           (let hash = sha256hex rt buffer
            in case load sid st of
                 (Inl err, st1) \<Rightarrow> (Inl err, st1, e)
               | (Inr scene, st1) \<Rightarrow>
                   (case find (\<lambda>entry. sha256hex rt (utf8 (toString rt
                                  (fieldOr (snd entry) ''dataURL'' (JStr [])))) = hash) (files scene) of
                      Some entry \<Rightarrow>
                        (Inr \<lparr> fileId = fst entry, deduplicated = True, sizeBytes = length buffer \<rparr>,
                         st1, e)
                    | None \<Rightarrow>
                        (let (fid, e1) = (case inputFileId input of
                                           Some f \<Rightarrow> (f, e)
                                         | None \<Rightarrow> randomUUID e);
                             dataURL = ''data:'' @ mimeType input @ '';base64,'' @ base64 input;
                             (created, e2) = dateNow e1;
                             (lastRetrieved, e3) = dateNow e2;
                             nextFile = [(''id'', JStr fid), (''mimeType'', JStr (mimeType input)),
                                         (''dataURL'', JStr dataURL), (''created'', JNum (Fin created)),
                                         (''lastRetrieved'', JNum (Fin lastRetrieved)),
                                         (''version'', JNum (Fin 1))];
                             (nextScene, e4) = normalizeScene rt
                                (scene\<lparr>files := setField fid nextFile (spread [] (files scene))\<rparr>) e3
                         in case save nextScene st1 e4 of
                              (Inl err, st2, e5) \<Rightarrow> (Inl err, st2, e5)
                            | (Inr u, st2, e5) \<Rightarrow>
                                (Inr \<lparr> fileId = fid, deduplicated = False, sizeBytes = length buffer \<rparr>,
                                 st2, e5)))))"


text \<open>The keys that \<open>normalizeElement\<close> writes before it spreads the element.\<close>

definition elementDefaultKeys :: "string list" where
  "elementDefaultKeys = [''id'', ''type'', ''x'', ''y'', ''width'', ''height'', ''angle'',
                         ''isDeleted'', ''version'', ''versionNonce'']"

section \<open>A concrete runtime and concrete inputs\<close>

text \<open>
  The closed theorems below run the model on explicit inputs, under a runtime that stands
  in for the primitives of JavaScript and Node on those inputs: integers are printed in
  decimal, strings of digits are read as numbers, base64 text over the standard alphabet
  is decoded, and the digest is the identity, a digest without collisions. The rounding is
  that of IEEE 754 in the range of the normal doubles: to the nearest number with a
  significand of 53 bits, a tie going to the even significand.
\<close>

text \<open>\<open>normalize52\<close> scales a positive number into the interval from \<open>2^52\<close> to \<open>2^53\<close> and counts the
  halvings, \<open>roundHalfEven\<close> rounds the scaled number to an integer.\<close>

fun normalize52 :: "nat \<Rightarrow> real \<Rightarrow> int \<Rightarrow> real \<times> int" where
  "normalize52 0 m e = (m, e)"
| "normalize52 (Suc n) m e =
     (if m < 4503599627370496 then normalize52 n (m * 2) (e - 1)
      else if 9007199254740992 \<le> m then normalize52 n (m / 2) (e + 1)
      else (m, e))"

definition roundHalfEven :: "real \<Rightarrow> int" where
  "roundHalfEven m =
     (let f = \<lfloor>m\<rfloor>; d = m - of_int f
      in if d < 1 / 2 then f else if 1 / 2 < d then f + 1 else if even f then f else f + 1)"

definition ieeeRound :: "real \<Rightarrow> real" where
  "ieeeRound x =
     (if x = 0 then 0
      else (let (m, e) = normalize52 2200 \<bar>x\<bar> 0;
                r = of_int (roundHalfEven m) * (if 0 \<le> e then 2 ^ nat e else 1 / 2 ^ nat (- e))
            in if x < 0 then - r else r))"

function showNat :: "nat \<Rightarrow> string" where
  "showNat n = (if n < 10 then [hexDigit n] else showNat (n div 10) @ [hexDigit (n mod 10)])"
  by pat_completeness auto
termination
  by (relation "measure id") auto

declare showNat.simps [simp del]

definition showInteger :: "real \<Rightarrow> string" where
  "showInteger r = (if r < 0 then ''-'' @ showNat (nat \<lfloor>- r\<rfloor>) else showNat (nat \<lfloor>r\<rfloor>))"

definition isDigit :: "char \<Rightarrow> bool" where
  "isDigit c = (48 \<le> (of_char c :: nat) \<and> (of_char c :: nat) \<le> 57)"

definition parseDigits :: "string \<Rightarrow> jsnum" where
  "parseDigits s =
     (if list_all isDigit s
      then Fin (real (foldl (\<lambda>a c. 10 * a + ((of_char c :: nat) - 48)) 0 s))
      else NaN)"

definition base64Alphabet :: string where
  "base64Alphabet = ''ABCDEFGHIJKLMNOPQRSTUVWXYZabcdefghijklmnopqrstuvwxyz0123456789+/''"

fun indexOf :: "'a \<Rightarrow> 'a list \<Rightarrow> nat option" where
  "indexOf c [] = None"
| "indexOf c (x # xs) = (if x = c then Some 0 else map_option Suc (indexOf c xs))"

fun sextets :: "nat list \<Rightarrow> string" where
  "sextets (a # b # c # d # rest) =
     char_of (a * 4 + b div 16) # char_of ((b mod 16) * 16 + c div 4) # char_of ((c mod 4) * 64 + d)
       # sextets rest"
| "sextets [a, b, c] = [char_of (a * 4 + b div 16), char_of ((b mod 16) * 16 + c div 4)]"
| "sextets [a, b] = [char_of (a * 4 + b div 16)]"
| "sextets _ = []"

definition decodeBase64 :: "string \<Rightarrow> string" where
  "decodeBase64 s = sextets (List.map_filter (\<lambda>c. indexOf c base64Alphabet) s)"

definition rt0 :: runtime where
  "rt0 = \<lparr> numToString = showInteger, strToNum = parseDigits, roundToDouble = ieeeRound,
           sha256hex = (\<lambda>bytes. bytes), base64decode = decodeBase64 \<rparr>"

definition env0 :: env where
  "env0 = \<lparr> uuids = (\<lambda>n. ''uuid-'' @ showNat n),
            randoms = (\<lambda>n. 1 / 2),
            clockMs = (\<lambda>n. 1767225600000 + real n),
            clockIso = (\<lambda>n. ''2026-01-01T00:00:0'' @ showNat (n mod 10) @ ''.000Z''),
            mtimes = (\<lambda>n. 1767225600000 + real n) \<rparr>"

text \<open>The scene that \<open>createScene\<close> builds before it normalizes it.\<close>

definition emptyScene :: "string \<Rightarrow> sceneEnvelope" where
  "emptyScene sid =
     \<lparr> metadata = \<lparr> sceneId = sid, name = ''Scene'', createdAt = ''2026-01-01T00:00:00.000Z'',
                    updatedAt = ''2026-01-01T00:00:00.000Z'', elementCount = 0, fileCount = 0,
                    engineHints = \<lparr> hasFrames = False, hasEmbeddables = False, hasImages = False \<rparr>,
                    revisionHash = [] \<rparr>,
       elements = [], appState = [], files = [], libraryItems = [] \<rparr>"

text \<open>A scene whose only element is an arrow in empty space.\<close>

definition loneArrow :: obj where
  "loneArrow = [(''id'', JStr ''a1''), (''type'', JStr ''arrow''), (''x'', JNum (Fin 0)),
                (''y'', JNum (Fin 0)), (''width'', JNum (Fin 100)), (''height'', JNum (Fin 0))]"

definition arrowScene :: sceneEnvelope where
  "arrowScene = (emptyScene ''s1'')\<lparr>elements := [loneArrow]\<rparr>"

text \<open>A scene with one rectangle, and a store that holds it.\<close>

definition rectN1 :: obj where
  "rectN1 = [(''id'', JStr ''n1''), (''type'', JStr ''rectangle''), (''x'', JNum (Fin 0)),
             (''y'', JNum (Fin 0)), (''width'', JNum (Fin 180)), (''height'', JNum (Fin 80))]"

definition oneRectScene :: sceneEnvelope where
  "oneRectScene = (emptyScene ''s1'')\<lparr>elements := [rectN1]\<rparr>"


text \<open>A store with two scenes that were last updated at the same instant, and one that was
  updated later.\<close>

definition sceneA :: sceneEnvelope where
  "sceneA = emptyScene ''a''"

definition sceneB :: sceneEnvelope where
  "sceneB = emptyScene ''b''"

definition sceneC :: sceneEnvelope where
  "sceneC = (emptyScene ''c'')\<lparr>metadata := (metadata (emptyScene ''c''))\<lparr>updatedAt := ''2026-01-02T00:00:00.000Z''\<rparr>\<rparr>"

definition store2 :: sceneStore where
  "store2 = \<lparr> disk = [''a'' \<mapsto> (1767225600000, sceneA), ''b'' \<mapsto> (1767225600001, sceneB),
                      ''c'' \<mapsto> (1767225600002, sceneC)],
              cache = Map.empty \<rparr>"














section \<open>Predicates of the specification\<close>

text \<open>The properties that the pass writes, and the rest of an element, which it keeps.\<close>

definition mutableKeys :: "string list" where
  "mutableKeys = [''startBinding'', ''endBinding'', ''boundElements'', ''text'', ''originalText'',
                  ''width'', ''height'']"

definition sameCore :: "obj list \<Rightarrow> obj list \<Rightarrow> bool" where
  "sameCore els els' =
     (length els' = length els \<and>
      (\<forall>k < length els. \<forall>key. key \<notin> set mutableKeys \<longrightarrow>
           getField key (els' ! k) = getField key (els ! k)))"

text \<open>The value that \<open>setBinding\<close> stores, and the hint \<open>customData.fromId\<close> or
  \<open>customData.toId\<close> of a connector.\<close>

definition bindingTo :: "string \<Rightarrow> json" where
  "bindingTo targetId =
     JObj [(''elementId'', JStr targetId), (''focus'', JNum (Fin 0)), (''gap'', JNum (Fin 0))]"


text \<open>An id that some element of the document has; and an id of an element that is neither a
  connector nor soft-deleted nor the connector \<open>self\<close>.\<close>

definition existsId :: "runtime \<Rightarrow> obj list \<Rightarrow> string \<Rightarrow> bool" where
  "existsId rt els t = (t \<noteq> [] \<and> list_ex (\<lambda>el. idOf rt el = t) els)"

definition liveShape :: "runtime \<Rightarrow> obj list \<Rightarrow> string \<Rightarrow> string \<Rightarrow> bool" where
  "liveShape rt els self t =
     (t \<noteq> [] \<and> t \<noteq> self \<and>
      list_ex (\<lambda>el. idOf rt el = t \<and> typeOf rt el \<notin> set CONNECTOR_TYPES \<and>
                     \<not> Boolean_js (getField ''isDeleted'' el)) els)"


text \<open>The state of the loop of \<open>applyDiagramQuality\<close> when it reaches the element at
  position \<open>m\<close>.\<close>

definition passUpTo :: "runtime \<Rightarrow> bool \<Rightarrow> obj list \<Rightarrow> nat \<Rightarrow> qstate" where
  "passUpTo rt fix els m =
     foldl (processElement rt fix (idToElement rt els))
       \<lparr> qElements = els, qIssues = [], qFixes = 0 \<rparr> [0..<m]"








section \<open>Auxiliary facts\<close>

subsection \<open>Objects\<close>

lemma keys_setField:
  "map fst (setField k v ps) = (if k \<in> set (map fst ps) then map fst ps else map fst ps @ [k])"
  by (induction ps) auto

lemma distinct_setField:
  "distinct (map fst ps) \<Longrightarrow> distinct (map fst (setField k v ps))"
  by (simp add: keys_setField)

lemma setField_fresh:
  "k \<notin> set (map fst ps) \<Longrightarrow> setField k v ps = ps @ [(k, v)]"
  by (induction ps) auto

lemma setField_append_hit:
  "k \<notin> set (map fst pre) \<Longrightarrow> setField k v (pre @ (k, w) # post) = pre @ (k, v) # post"
  by (induction pre) auto

lemma spread_Nil [simp]: "spread a [] = a"
  by (simp add: spread_def)

lemma spread_Cons [simp]: "spread a (p # b) = spread (setField (fst p) (snd p) a) b"
  by (simp add: spread_def)

lemma spread_append: "spread a (b @ c) = spread (spread a b) c"
  by (simp add: spread_def)

lemma spread_fresh:
  "distinct (map fst a @ map fst b) \<Longrightarrow> spread a b = a @ b"
proof (induction b arbitrary: a)
  case Nil
  then show ?case by simp
next
  case (Cons p b)
  have "setField (fst p) (snd p) a = a @ [p]"
    using Cons.prems by (simp add: setField_fresh)
  moreover have "distinct (map fst (a @ [p]) @ map fst b)"
    using Cons.prems by auto
  ultimately show ?case
    using Cons.IH [of "a @ [p]"] by simp
qed

lemma spread_overwrite:
  "map fst r = map fst d \<Longrightarrow> distinct (map fst pre @ map fst r) \<Longrightarrow> spread (pre @ d) r = pre @ r"
proof (induction r arbitrary: d pre)
  case Nil
  then show ?case by simp
next
  case (Cons p r)
  then obtain q d' where d: "d = q # d'" and q: "fst q = fst p" and rest: "map fst r = map fst d'"
    by (cases d) auto
  have "setField (fst p) (snd p) (pre @ q # d') = pre @ p # d'"
    using Cons.prems(2) q setField_append_hit [of "fst p" pre "snd p" "snd q" d']
    by (cases q) (auto simp: image_iff)
  moreover have "distinct (map fst (pre @ [p]) @ map fst r)"
    using Cons.prems(2) by auto
  ultimately show ?case
    using Cons.IH [of d' "pre @ [p]"] rest d by simp
qed

lemma spread_absorb:
  assumes "distinct (map fst (r1 @ r2))" and "map fst r1 = map fst d"
  shows "spread d (r1 @ r2) = r1 @ r2"
proof -
  have "spread d r1 = r1"
    using spread_overwrite [of r1 d "[]"] assms by simp
  then show ?thesis
    using spread_fresh [of r1 r2] assms(1) by (simp add: spread_append)
qed

lemma spread_keys_prefix:
  "\<exists>ext. spread a b = (take (length a) (spread a b)) @ ext \<and> map fst (take (length a) (spread a b)) = map fst a"
proof (induction b arbitrary: a)
  case Nil
  then show ?case by simp
next
  case (Cons p b)
  let ?a' = "setField (fst p) (snd p) a"
  have len: "length a \<le> length ?a'"
    by (metis keys_setField length_append length_map le_add1 order_refl)
  have pre: "map fst (take (length a) ?a') = map fst a"
    by (metis keys_setField append_eq_conv_conj length_map take_map take_all order_refl)
  from Cons.IH [of ?a'] obtain ext where
    e: "spread ?a' b = take (length ?a') (spread ?a' b) @ ext"
    and k: "map fst (take (length ?a') (spread ?a' b)) = map fst ?a'" by blast
  have "map fst (take (length a) (spread ?a' b)) = take (length a) (map fst (take (length ?a') (spread ?a' b)))"
    using len by (simp add: take_map min_def)
  also have "\<dots> = map fst a"
    using k pre by (simp add: take_map)
  finally show ?case
    by (metis append_take_drop_id spread_Cons)
qed

lemma distinct_spread:
  "distinct (map fst a) \<Longrightarrow> distinct (map fst (spread a b))"
  by (induction b arbitrary: a) (auto simp: distinct_setField)

lemma spread_idem:
  assumes "distinct (map fst d)" and "map fst d' = map fst d"
  shows "spread d' (spread d ob) = spread d ob"
proof -
  obtain ext where e: "spread d ob = take (length d) (spread d ob) @ ext"
    and k: "map fst (take (length d) (spread d ob)) = map fst d"
    using spread_keys_prefix [of d ob] by blast
  have "distinct (map fst (take (length d) (spread d ob) @ ext))"
    using distinct_spread [OF assms(1), of ob] e by metis
  then have "spread d' (take (length d) (spread d ob) @ ext) = take (length d) (spread d ob) @ ext"
    using spread_absorb [of "take (length d) (spread d ob)" ext d'] k assms(2) by simp
  then show ?thesis using e by metis
qed

subsection \<open>The normalizer\<close>


lemma normalizeElement_shape:
  "\<exists>d. map fst d = elementDefaultKeys \<and> fst (normalizeElement rt ob e) = spread d ob"
  unfolding normalizeElement_def elementDefaultKeys_def
  apply (simp add: split_def Let_def)
  apply (rule exI)
  apply (rule conjI)
   prefer 2
   apply (rule refl)
  apply simp
  done

lemma normalizeElement_idem:
  "fst (normalizeElement rt (fst (normalizeElement rt ob e1)) e2) = fst (normalizeElement rt ob e1)"
proof -
  obtain d where d: "map fst d = elementDefaultKeys" "fst (normalizeElement rt ob e1) = spread d ob"
    using normalizeElement_shape by blast
  obtain d' where d': "map fst d' = elementDefaultKeys"
    "fst (normalizeElement rt (spread d ob) e2) = spread d' (spread d ob)"
    using normalizeElement_shape by blast
  have "distinct (map fst d)" using d(1) by (simp add: elementDefaultKeys_def)
  then show ?thesis
    using spread_idem [of d d' ob] d d' by simp
qed

lemma mapEnv_idem:
  assumes "\<And>x e e'. fst (f (fst (f x e)) e') = fst (f x e)"
  shows "fst (mapEnv f (fst (mapEnv f xs e1)) e2) = fst (mapEnv f xs e1)"
proof (induction xs arbitrary: e1 e2)
  case Nil
  then show ?case by simp
next
  case (Cons x xs)
  show ?case
    using assms [of x e1 e2] Cons.IH [of "snd (f x e1)" "snd (f (fst (f x e1)) e2)"]
    by (simp add: split_def Let_def)
qed

lemma length_mapEnv [simp]: "length (fst (mapEnv f xs e)) = length xs"
  by (induction xs arbitrary: e) (simp_all add: split_def Let_def)

lemma length_normalizeElements [simp]: "length (fst (normalizeElements rt els e)) = length els"
  by (simp add: normalizeElements_def)

lemma normalizeElements_idem:
  "fst (normalizeElements rt (fst (normalizeElements rt els e1)) e2) = fst (normalizeElements rt els e1)"
  unfolding normalizeElements_def
  by (rule mapEnv_idem) (rule normalizeElement_idem)

lemma normalizeScene_fields:
  "elements (fst (normalizeScene rt d e)) = fst (normalizeElements rt (elements d) e)"
  "appState (fst (normalizeScene rt d e)) = appState d"
  "files (fst (normalizeScene rt d e)) = files d"
  "libraryItems (fst (normalizeScene rt d e)) = libraryItems d"
  "metadata (fst (normalizeScene rt d e)) = (metadata d)
      \<lparr> updatedAt := clockIso (snd (normalizeElements rt (elements d) e)) 0,
        elementCount := length (elements d),
        fileCount := length (files d),
        engineHints := detectEngineHints (fst (normalizeElements rt (elements d) e)),
        revisionHash := computeRevisionHash rt (fst (normalizeElements rt (elements d) e))
                          (appState d) (files d) (libraryItems d) \<rparr>"
  by (simp_all add: normalizeScene_def split_def Let_def nowIso_def normalizeElements_def)

lemma mapEnv_clockIso:
  assumes "\<And>x e. clockIso (snd (f x e)) = clockIso e"
  shows "clockIso (snd (mapEnv f xs e)) = clockIso e"
  by (induction xs arbitrary: e) (simp_all add: split_def Let_def assms)

lemma normalizeElement_clockIso: "clockIso (snd (normalizeElement rt ob e)) = clockIso e"
  by (simp add: normalizeElement_def numberOrRandom_def randomUUID_def mathRandom_def split_def Let_def
      split: option.splits json.splits)

lemma normalizeElements_clockIso: "clockIso (snd (normalizeElements rt els e)) = clockIso e"
  unfolding normalizeElements_def
  by (rule mapEnv_clockIso) (rule normalizeElement_clockIso)

lemma normalizeScene_twice:
  "fst (normalizeScene rt (fst (normalizeScene rt d e1)) e2) =
     (fst (normalizeScene rt d e1))
       \<lparr>metadata := (metadata (fst (normalizeScene rt d e1)))\<lparr>updatedAt := clockIso e2 0\<rparr>\<rparr>"
  by (rule sceneEnvelope.equality)
     (simp_all add: normalizeScene_fields normalizeElements_idem normalizeElements_clockIso)

subsection \<open>The quality pass in analysis-only mode\<close>

lemma bindSide_nofix:
  "qElements (bindSide rt False idx i eid ty side sn b r st) = qElements st"
  "qFixes (bindSide rt False idx i eid ty side sn b r st) = qFixes st"
  by (simp_all add: bindSide_def split: option.splits)

lemma processConnector_nofix:
  "qElements (processConnector rt False idx i st) = qElements st"
  "qFixes (processConnector rt False idx i st) = qFixes st"
  by (simp_all add: processConnector_def Let_def split_def bindSide_nofix)

lemma processText_nofix:
  "qElements (processText rt False idx i st) = qElements st"
  "qFixes (processText rt False idx i st) = qFixes st"
  by (simp_all add: processText_def checkOverflow_def Let_def split: option.splits)

lemma processElement_nofix:
  "qElements (processElement rt False idx st i) = qElements st"
  "qFixes (processElement rt False idx st i) = qFixes st"
  by (simp_all add: processElement_def Let_def processConnector_nofix processText_nofix)

lemma foldl_processElement_nofix:
  "qElements (foldl (processElement rt False idx) st is) = qElements st \<and>
   qFixes (foldl (processElement rt False idx) st is) = qFixes st"
  by (induction "is" arbitrary: st) (simp_all add: processElement_nofix)

lemma applyDiagramQuality_nofix:
  "resultScene (applyDiagramQuality rt scene False) = scene"
  "fixesApplied (applyDiagramQuality rt scene False) = 0"
  by (simp_all add: applyDiagramQuality_def Let_def foldl_processElement_nofix)

lemma normalizeScene_clockIso:
  "clockIso (snd (normalizeScene rt d e)) = (\<lambda>n. clockIso e (Suc n))"
  by (simp add: normalizeScene_def split_def Let_def nowIso_def normalizeElements_clockIso)

lemma normalizeScene_updatedAt:
  "updatedAt (metadata (fst (normalizeScene rt d e))) = clockIso e 0"
  by (simp add: normalizeScene_fields normalizeElements_clockIso)



lemmas quality_eval =
  applyDiagramQuality_def processElement_def processConnector_def processText_def checkOverflow_def
  rewrapText_def bindSide_def
  resolveTarget_def inferBindingTargetId_def idToElement_def idOf_def typeOf_def fieldOr_def
  coalesce_def getField_def connectorEndpoints_def num_def Number_js_def nthOpt_def
  extractBindingId_def stringField_def hasKey_def setBinding_def ensureBoundElementsRef_def
  boundsFor_def pointInsideBounds_def pointDistance_def CONNECTOR_TYPES_def Boolean_js_def
  fadd_def fsub_def fmul_def fdiv_def fsqrt_def

lemma arrowScene_issues:
  "map issueCode (resultIssues (applyDiagramQuality rt0 arrowScene False)) =
     [CONNECTOR_UNBOUND, CONNECTOR_UNBOUND]"
  by (simp add: quality_eval arrowScene_def emptyScene_def loneArrow_def Let_def)

subsection \<open>The patch engine\<close>

lemma getField_setField:
  "getField k' (setField k v m) = (if k' = k then Some v else getField k' m)"
  by (induction m) (auto simp: getField_def)

lemma getField_None_iff: "getField k m = None \<longleftrightarrow> k \<notin> fst ` set m"
  by (simp add: getField_def map_of_eq_None_iff)

lemma keys_foldl_setField:
  "fst ` set (foldl (\<lambda>m el. setField (f el) el m) acc els) = fst ` set acc \<union> f ` set els"
proof (induction els arbitrary: acc)
  case Nil
  then show ?case by simp
next
  case (Cons el els)
  have "fst ` set (setField (f el) el acc) = insert (f el) (fst ` set acc)"
    using keys_setField [of "f el" el acc] by (metis (no_types, lifting) insert_absorb list.set_map
        set_append list.simps(15) Un_insert_right sup_bot.right_neutral empty_set)
  then show ?case using Cons.IH [of "setField (f el) el acc"] by auto
qed

lemma keys_mapById: "fst ` set (mapById els) = getField ''id'' ` set els"
  unfolding mapById_def using keys_foldl_setField [of "getField ''id''" "[]" els] by simp

lemma updateLoop_absent:
  assumes "u \<in> set updates" and "getField (Some (JStr (fst u))) m = None"
  shows "\<exists>err e'. updateLoop rt updates m ch e = (Inl err, e') \<and> errorCodeOf err = NOT_FOUND"
  using assms
proof (induction updates arbitrary: m ch e)
  case Nil
  then show ?case by simp
next
  case (Cons v updates)
  show ?case
  proof (cases "getField (Some (JStr (fst v))) m")
    case None
    then show ?thesis by simp
  next
    case (Some existing)
    then have ne: "fst v \<noteq> fst u" using Cons.prems(2) by auto
    then have in_rest: "u \<in> set updates" using Cons.prems(1) by auto
    have absent: "getField (Some (JStr (fst u))) (setField (Some (JStr (fst v))) x m) = None" for x
      using Cons.prems(2) ne by (simp add: getField_setField)
    show ?thesis
      using Some Cons.IH [OF in_rest absent] by (simp add: split_def Let_def)
  qed
qed

lemma updateLoop_error:
  "updateLoop rt updates m ch e = (Inl err, e') \<Longrightarrow> errorCodeOf err = NOT_FOUND"
  by (induction updates arbitrary: m ch e) (auto simp: split_def Let_def split: option.splits)

lemma applyOperation_error:
  assumes "applyOperation rt operation next ch e = (Inl err, e')"
  shows "errorCodeOf err = NOT_FOUND"
proof (cases operation)
  case (UpdateElements updates)
  obtain r e1 where r: "updateLoop rt updates (mapById (elements next)) ch e = (r, e1)"
    by (cases "updateLoop rt updates (mapById (elements next)) ch e")
  show ?thesis
  proof (cases r)
    case (Inl err')
    then show ?thesis
      using assms r UpdateElements updateLoop_error [of rt updates _ ch e err' e1] by simp
  next
    case (Inr ok)
    then show ?thesis
      using assms r UpdateElements by (cases ok) (simp add: split_def Let_def)
  qed
qed (use assms in \<open>auto simp: split_def Let_def\<close>)

lemma applyOperations_error:
  "applyOperations rt ops next ch e = (Inl err, e') \<Longrightarrow> errorCodeOf err = NOT_FOUND"
  by (induction ops arbitrary: "next" ch e)
     (auto dest: applyOperation_error split: prod.splits sum.splits)

lemma applyOperations_append:
  "applyOperations rt (pre @ post) next ch e =
     (case applyOperations rt pre next ch e of
        (Inl err, e1) \<Rightarrow> (Inl err, e1)
      | (Inr (next1, ch1), e1) \<Rightarrow> applyOperations rt post next1 ch1 e1)"
  by (induction pre arbitrary: "next" ch e) (auto split: prod.splits sum.splits)

lemma applyOperation_update_absent:
  assumes "u \<in> set updates" and "\<forall>el \<in> set (elements next). getField ''id'' el \<noteq> Some (JStr (fst u))"
  shows "\<exists>err e'. applyOperation rt (UpdateElements updates) next ch e = (Inl err, e') \<and>
           errorCodeOf err = NOT_FOUND"
proof -
  have "Some (JStr (fst u)) \<notin> fst ` set (mapById (elements next))"
    using assms(2) by (auto simp: keys_mapById)
  then have "getField (Some (JStr (fst u))) (mapById (elements next)) = None"
    by (simp add: getField_None_iff)
  from updateLoop_absent [OF assms(1) this, of rt ch e]
  show ?thesis by auto
qed

lemma applyPatch_update_absent:
  assumes "applyOperations rt pre scene [] e = (Inr (next, ch), e1)"
    and "u \<in> set updates"
    and "\<forall>el \<in> set (elements next). getField ''id'' el \<noteq> Some (JStr (fst u))"
  shows "\<exists>err e'. applyPatch rt scene (pre @ UpdateElements updates # post) e = (Inl err, e') \<and>
           errorCodeOf err = NOT_FOUND"
proof -
  obtain err e' where "applyOperation rt (UpdateElements updates) next ch e1 = (Inl err, e')"
    "errorCodeOf err = NOT_FOUND"
    using applyOperation_update_absent [OF assms(2,3)] by blast
  then show ?thesis
    using assms(1) by (simp add: applyPatch_def applyOperations_append)
qed

text \<open>Deleting: an id that no element carries can be dropped from the list of ids.\<close>

lemma deleteLoop_absent:
  assumes "\<forall>el \<in> set els. getField ''id'' el \<noteq> Some (JStr uid)"
  shows "deleteLoop rt ids hard els ch e = deleteLoop rt (removeAll uid ids) hard els ch e"
  using assms
proof (induction els arbitrary: ch e)
  case Nil
  then show ?case by simp
next
  case (Cons el els)
  have same: "(case getField ''id'' el of Some (JStr s) \<Rightarrow> s \<in> set ids | _ \<Rightarrow> False) =
              (case getField ''id'' el of Some (JStr s) \<Rightarrow> s \<in> set (removeAll uid ids) | _ \<Rightarrow> False)"
    using Cons.prems by (auto split: option.splits json.splits)
  have rest: "\<forall>el \<in> set els. getField ''id'' el \<noteq> Some (JStr uid)"
    using Cons.prems by simp
  have IH: "\<And>ch e. deleteLoop rt ids hard els ch e = deleteLoop rt (removeAll uid ids) hard els ch e"
    using Cons.IH [OF rest] .
  show ?case
  proof (cases hard)
    case True
    then show ?thesis using IH same by (simp add: split_def Let_def)
  next
    case False
    then show ?thesis using IH same by (simp add: split_def Let_def)
  qed
qed

lemma getField_bumped_id:
  "getField ''id'' (bumped rt el (setField ''isDeleted'' v (spread [] el)) t) = getField ''id'' (spread [] el)"
  by (simp add: bumped_def getField_setField)

lemma getField_spread:
  "getField k (spread a b) = (case map_of (rev b) k of None \<Rightarrow> getField k a | Some v \<Rightarrow> Some v)"
proof (induction b arbitrary: a)
  case Nil
  then show ?case by simp
next
  case (Cons p b)
  show ?case
    using Cons.IH [of "setField (fst p) (snd p) a"]
    by (cases p) (auto simp: getField_setField map_of_append split: option.splits)
qed

lemma deleteLoop_none:
  assumes "\<forall>el \<in> set els. \<forall>s. getField ''id'' el = Some (JStr s) \<longrightarrow> s \<notin> set ids"
  shows "deleteLoop rt ids hard els ch e = (els, ch, e)"
  using assms
proof (induction els)
  case Nil
  then show ?case by simp
next
  case (Cons el els)
  have "\<not> (case getField ''id'' el of Some (JStr s) \<Rightarrow> s \<in> set ids | _ \<Rightarrow> False)"
    using Cons.prems by (auto split: option.splits json.splits)
  then show ?case using Cons by simp
qed

lemma setAdd_set [simp]: "set (setAdd x xs) = insert x (set xs)"
  by (auto simp: setAdd_def)

lemma deleteLoop_changed:
  "x \<in> set (fst (snd (deleteLoop rt ids hard els ch e))) \<Longrightarrow>
     x \<in> set ch \<or> (\<exists>s el. x = JStr s \<and> s \<in> set ids \<and> el \<in> set els \<and> getField ''id'' el = Some (JStr s))"
proof (induction els arbitrary: ch e)
  case Nil
  then show ?case by simp
next
  case (Cons el els)
  show ?case
  proof (cases "case getField ''id'' el of Some (JStr s) \<Rightarrow> s \<in> set ids | _ \<Rightarrow> False")
    case False
    then have "x \<in> set (fst (snd (deleteLoop rt ids hard els ch e)))"
      using Cons.prems by (simp add: split_def Let_def)
    from Cons.IH [OF this] show ?thesis by auto
  next
    case True
    then obtain s where s: "getField ''id'' el = Some (JStr s)" "s \<in> set ids"
      by (auto split: option.splits json.splits)
    have "\<exists>e'. x \<in> set (fst (snd (deleteLoop rt ids hard els (setAdd (JStr s) ch) e')))"
      using Cons.prems True s by (cases hard) (auto simp: split_def Let_def)
    then obtain e' where "x \<in> set (fst (snd (deleteLoop rt ids hard els (setAdd (JStr s) ch) e')))" ..
    from Cons.IH [OF this] show ?thesis using s by auto
  qed
qed

lemma applyOperation_delete_total:
  "\<exists>next' ch' e'. applyOperation rt (DeleteElements ids hard) next ch e = (Inr (next', ch'), e')"
  by (simp add: split_def Let_def)

lemma applyPatch_cong_operation:
  assumes "applyOperations rt pre scene [] e = (Inr (next, ch), e1)"
    and "applyOperation rt op1 next ch e1 = applyOperation rt op2 next ch e1"
  shows "applyPatch rt scene (pre @ op1 # post) e = applyPatch rt scene (pre @ op2 # post) e"
  using assms by (simp add: applyPatch_def applyOperations_append)

subsection \<open>The store\<close>

lemma load_disk [simp]: "disk (snd (load sid st)) = disk st"
  by (simp add: load_def split: sum.splits option.splits prod.splits)








lemma applyPatch_Inl:
  assumes "applyOperations rt ops scene [] e = (Inl err, e1)"
  shows "applyPatch rt scene ops e = (Inl err, e1)"
  using assms by (simp add: applyPatch_def)






subsection \<open>Listing the scenes\<close>

lemma mset_insertDesc: "mset (insertDesc m xs) = add_mset m (mset xs)"
  by (induction xs) auto

lemma set_insertDesc: "set (insertDesc m xs) = insert m (set xs)"
  by (induction xs) auto

lemma sorted_insertDesc:
  "sorted_wrt (\<lambda>a b. updatedAt b \<le> updatedAt a) xs \<Longrightarrow>
     sorted_wrt (\<lambda>a b. updatedAt b \<le> updatedAt a) (insertDesc m xs)"
proof (induction xs)
  case Nil
  then show ?case by simp
next
  case (Cons x xs)
  show ?case
  proof (cases "updatedAt x \<le> updatedAt m")
    case True
    then show ?thesis using Cons.prems by (auto intro: order_trans)
  next
    case False
    then have "updatedAt m \<le> updatedAt x" by simp
    then show ?thesis using False Cons by (auto simp: set_insertDesc)
  qed
qed

lemma filter_insertDesc:
  "filter (\<lambda>y. updatedAt y = k) (insertDesc m xs) =
     (if updatedAt m = k then m # filter (\<lambda>y. updatedAt y = k) xs else filter (\<lambda>y. updatedAt y = k) xs)"
  by (induction xs) auto

lemma mset_sortByUpdatedAtDesc: "mset (sortByUpdatedAtDesc ms) = mset ms"
  unfolding sortByUpdatedAtDesc_def by (induction ms) (simp_all add: mset_insertDesc)

lemma sorted_sortByUpdatedAtDesc:
  "sorted_wrt (\<lambda>a b. updatedAt b \<le> updatedAt a) (sortByUpdatedAtDesc ms)"
  unfolding sortByUpdatedAtDesc_def by (induction ms) (simp_all add: sorted_insertDesc)

lemma stable_sortByUpdatedAtDesc:
  "filter (\<lambda>y. updatedAt y = k) (sortByUpdatedAtDesc ms) = filter (\<lambda>y. updatedAt y = k) ms"
  unfolding sortByUpdatedAtDesc_def by (induction ms) (simp_all add: filter_insertDesc)

lemma load_after_load: "fst (load b (snd (load a st))) = fst (load b st)"
  by (auto simp: load_def split: sum.splits option.splits prod.splits)

lemma loadAll_loaded:
  assumes "loadAll fs st1 = (Inr ms, st')" and "\<And>b. fst (load b st1) = fst (load b st)"
  shows "list_all2 (\<lambda>f m. \<exists>sc. fst (load (take (length f - length sceneSuffix) f) st) = Inr sc \<and>
                            m = metadata sc) fs ms \<and> disk st' = disk st1"
  using assms
proof (induction fs arbitrary: st1 ms)
  case Nil
  then show ?case by simp
next
  case (Cons f fs)
  let ?sid = "take (length f - length sceneSuffix) f"
  obtain lr st2 where l: "load ?sid st1 = (lr, st2)" by (cases "load ?sid st1")
  from Cons.prems(1) l obtain sc where lr: "lr = Inr sc"
    by (cases lr) auto
  obtain rr st3 where r: "loadAll fs st2 = (rr, st3)" by (cases "loadAll fs st2")
  from Cons.prems(1) l lr r obtain ms' where rr: "rr = Inr ms'" and ms: "ms = metadata sc # ms'"
    and st3: "st' = st3"
    by (cases rr) auto
  have inv: "fst (load b st2) = fst (load b st)" for b
    using load_after_load [of b ?sid st1] l Cons.prems(2) by simp
  have d: "disk st2 = disk st1" using l load_disk [of ?sid st1] by simp
  have "fst (load ?sid st) = Inr sc" using l lr Cons.prems(2) [of ?sid] by simp
  then show ?case
    using Cons.IH [OF _ inv, of ms'] r rr ms st3 d by auto
qed

lemma listMetadata_sorted:
  assumes "listMetadata dirEntries st = (Inr out, st')"
  shows "\<exists>loaded.
           list_all2 (\<lambda>f m. \<exists>sc. fst (load (take (length f - length sceneSuffix) f) st) = Inr sc \<and>
                              m = metadata sc)
             (filter (\<lambda>f. endsWith f sceneSuffix) dirEntries) loaded \<and>
           mset out = mset loaded \<and>
           sorted_wrt (\<lambda>a b. updatedAt b \<le> updatedAt a) out \<and>
           (\<forall>k. filter (\<lambda>m. updatedAt m = k) out = filter (\<lambda>m. updatedAt m = k) loaded) \<and>
           disk st' = disk st"
proof -
  obtain r st1 where a: "loadAll (filter (\<lambda>f. endsWith f sceneSuffix) dirEntries) st = (r, st1)"
    by (cases "loadAll (filter (\<lambda>f. endsWith f sceneSuffix) dirEntries) st")
  from assms a obtain loaded where r: "r = Inr loaded" and out: "out = sortByUpdatedAtDesc loaded"
    and st': "st' = st1"
    by (cases r) (auto simp: listMetadata_def)
  from loadAll_loaded [of _ st loaded st1 st] a r
  have "list_all2 (\<lambda>f m. \<exists>sc. fst (load (take (length f - length sceneSuffix) f) st) = Inr sc \<and>
                              m = metadata sc)
             (filter (\<lambda>f. endsWith f sceneSuffix) dirEntries) loaded \<and> disk st1 = disk st"
    by simp
  then show ?thesis
    using out st' mset_sortByUpdatedAtDesc sorted_sortByUpdatedAtDesc stable_sortByUpdatedAtDesc
    by blast
qed

lemmas store_eval = listMetadata_def load_def sanitizeSceneId_def sceneIdChar_def endsWith_def
  sceneSuffix_def sortByUpdatedAtDesc_def

lemma list_ba:
  "fst (listMetadata [''b.excalidraw.json'', ''a.excalidraw.json''] store2) =
     Inr [metadata sceneB, metadata sceneA]"
  by (simp add: store_eval store2_def sceneA_def sceneB_def emptyScene_def)

lemma list_ab:
  "fst (listMetadata [''a.excalidraw.json'', ''b.excalidraw.json''] store2) =
     Inr [metadata sceneA, metadata sceneB]"
  by (simp add: store_eval store2_def sceneA_def sceneB_def emptyScene_def)

lemma list_abc:
  "listMetadata [''a.excalidraw.json'', ''notes.txt'', ''c.excalidraw.json'', ''b.excalidraw.json''] store2 =
     (Inr [metadata sceneC, metadata sceneA, metadata sceneB],
      store2\<lparr>cache := [''a'' \<mapsto> (1767225600000, sceneA), ''c'' \<mapsto> (1767225600002, sceneC),
                        ''b'' \<mapsto> (1767225600001, sceneB)]\<rparr>)"
  by (simp add: store_eval store2_def sceneA_def sceneB_def sceneC_def emptyScene_def)

subsection \<open>Text wrapping\<close>

lemma splitWhen_not_Nil [simp]: "splitWhen P s \<noteq> []"
  by (induction s) (auto split: list.splits)








lemma isSpace_space [simp]: "isSpace CHR '' ''"
  by (simp add: isSpace_def)


lemma packWords_not_Nil [simp]: "packWords m cur ws \<noteq> []"
  by (induction ws arbitrary: cur) auto





subsection \<open>What a step of the pass keeps\<close>

lemma getField_ensureBoundElementsRef:
  "key \<noteq> ''boundElements'' \<Longrightarrow>
     getField key (ensureBoundElementsRef rt target cid cty) = getField key target"
  by (simp add: ensureBoundElementsRef_def Let_def getField_setField)

lemma getField_setBinding:
  "getField key (setBinding el side r) = (if key = side then Some (bindingTo r) else getField key el)"
  by (simp add: setBinding_def bindingTo_def getField_setField)

lemma getField_rewrapText:
  "key \<notin> set [''text'', ''originalText'', ''width'', ''height''] \<Longrightarrow>
     getField key (rewrapText rt el body fs lh mw) = getField key el"
  by (simp add: rewrapText_def Let_def getField_setField)

lemma nth_list_update_any:
  "(xs[i := a]) ! k = (if k = i \<and> i < length xs then a else xs ! k)"
  by (cases "i < length xs") (auto simp: nth_list_update list_update_beyond)

lemma bindSide_length [simp]:
  "length (qElements (bindSide rt fix idx i eid ty side sn b r st)) = length (qElements st)"
  by (simp add: bindSide_def Let_def split: option.splits)

lemma bindSide_other_keys:
  assumes "key \<noteq> side" and "key \<noteq> ''boundElements''"
  shows "getField key (qElements (bindSide rt fix idx i eid ty side sn b r st) ! k) =
         getField key (qElements st ! k)"
  using assms
  by (auto simp: bindSide_def Let_def nth_list_update_any getField_ensureBoundElementsRef
      getField_setBinding split: option.splits)


lemma inferLoop_result:
  assumes "inferLoop rt p ex cands best = Some (t, d)"
  shows "best = Some (t, d) \<or>
         (t \<noteq> [] \<and> t \<noteq> ex \<and>
          (\<exists>c \<in> set cands. idOf rt c = t \<and> typeOf rt c \<notin> set CONNECTOR_TYPES \<and>
                              \<not> Boolean_js (getField ''isDeleted'' c)))"
  using assms
proof (induction cands arbitrary: best)
  case Nil
  then show ?case by simp
next
  case (Cons c cands)
  show ?case
  proof (cases "inferLoop rt p ex (c # cands) best = inferLoop rt p ex cands best")
    case True
    then show ?thesis using Cons.IH [of best] Cons.prems by auto
  next
    case False
    then have sel: "inferLoop rt p ex (c # cands) best =
                    inferLoop rt p ex cands (Some (idOf rt c, pointDistance rt p (boundsFor rt c)))"
      and ok: "idOf rt c \<noteq> []" "idOf rt c \<noteq> ex" "typeOf rt c \<notin> set CONNECTOR_TYPES"
              "\<not> Boolean_js (getField ''isDeleted'' c)"
      by (auto simp: Let_def split: if_splits)
    from Cons.IH [of "Some (idOf rt c, pointDistance rt p (boundsFor rt c))"] Cons.prems sel
    show ?thesis using ok by auto
  qed
qed


lemma processConnector_length [simp]:
  "length (qElements (processConnector rt fix idx i st)) = length (qElements st)"
  by (simp add: processConnector_def Let_def split_def)

lemma processConnector_other_keys:
  assumes "key \<notin> set [''startBinding'', ''endBinding'', ''boundElements'']"
  shows "getField key (qElements (processConnector rt fix idx i st) ! k) = getField key (qElements st ! k)"
  using assms by (simp add: processConnector_def Let_def split_def bindSide_other_keys)


lemma checkOverflow_length [simp]:
  "length (qElements (checkOverflow rt fix i cid container st)) = length (qElements st)"
  by (simp add: checkOverflow_def Let_def)

lemma checkOverflow_keys:
  assumes "key \<notin> set [''text'', ''originalText'', ''width'', ''height'']"
  shows "getField key (qElements (checkOverflow rt fix i cid container st) ! k) = getField key (qElements st ! k)"
  using assms getField_rewrapText [of key rt]
  by (simp add: checkOverflow_def Let_def nth_list_update_any del: max_less_iff_conj less_max_iff_disj)

lemma processText_length [simp]:
  "length (qElements (processText rt fix idx i st)) = length (qElements st)"
  by (simp add: processText_def split: option.splits)

lemma processText_keys:
  assumes "key \<notin> set [''text'', ''originalText'', ''width'', ''height'']"
  shows "getField key (qElements (processText rt fix idx i st) ! k) = getField key (qElements st ! k)"
  using checkOverflow_keys [OF assms] by (simp add: processText_def split: option.splits)

lemma processElement_length [simp]:
  "length (qElements (processElement rt fix idx st i)) = length (qElements st)"
  by (simp add: processElement_def Let_def)

lemma processElement_core:
  assumes "key \<notin> set mutableKeys"
  shows "getField key (qElements (processElement rt fix idx st i) ! k) = getField key (qElements st ! k)"
  using assms
  by (simp add: processElement_def Let_def mutableKeys_def processText_keys processConnector_other_keys)


subsection \<open>The loop of the pass\<close>

lemma passUpTo_0 [simp]: "passUpTo rt fx els 0 = \<lparr> qElements = els, qIssues = [], qFixes = 0 \<rparr>"
  by (simp add: passUpTo_def)

lemma passUpTo_Suc:
  "passUpTo rt fx els (Suc m) = processElement rt fx (idToElement rt els) (passUpTo rt fx els m) m"
  by (simp add: passUpTo_def)


lemma passUpTo_length [simp]: "length (qElements (passUpTo rt fx els m)) = length els"
  by (induction m) (simp_all add: passUpTo_Suc)

lemma passUpTo_core:
  "key \<notin> set mutableKeys \<Longrightarrow> getField key (qElements (passUpTo rt fx els m) ! k) = getField key (els ! k)"
  by (induction m) (simp_all add: passUpTo_Suc processElement_core)











lemma idToElement_keys_foldl:
  "fst ` set (foldl (\<lambda>m i. if f i \<noteq> [] then setField (f i) i m else m) acc ns) =
     fst ` set acc \<union> {f i | i. i \<in> set ns \<and> f i \<noteq> []}"
proof (induction ns arbitrary: acc)
  case Nil
  then show ?case by simp
next
  case (Cons n ns)
  have "fst ` set (setField a b acc) = insert a (fst ` set acc)" for a b
    by (induction acc) auto
  then show ?case using Cons.IH by auto
qed

lemma hasKey_idToElement:
  "hasKey t (idToElement rt els) \<longleftrightarrow> t \<noteq> [] \<and> (\<exists>k < length els. idOf rt (els ! k) = t)"
  unfolding hasKey_def idToElement_def
  using idToElement_keys_foldl [of "\<lambda>i. idOf rt (els ! i)" "[]" "[0..<length els]"]
  by auto

subsection \<open>The text branch\<close>






subsection \<open>The text branch on the concrete scenes\<close>












subsection \<open>The connector branch over the whole pass\<close>

lemma idOf_cong: "getField ''id'' a = getField ''id'' b \<Longrightarrow> idOf rt a = idOf rt b"
  by (simp add: idOf_def fieldOr_def)



lemma core_keys:
  "''id'' \<notin> set mutableKeys" "''type'' \<notin> set mutableKeys" "''isDeleted'' \<notin> set mutableKeys"
  "''customData'' \<notin> set mutableKeys"
  by (simp_all add: mutableKeys_def)

lemma passUpTo_idOf: "idOf rt (qElements (passUpTo rt fx els m) ! k) = idOf rt (els ! k)"
  by (rule idOf_cong) (simp add: passUpTo_core core_keys)



lemma list_ex_nth: "list_ex P xs \<longleftrightarrow> (\<exists>k < length xs. P (xs ! k))"
  by (metis in_set_conv_nth list_ex_iff)


lemma passUpTo_existsId:
  "existsId rt (qElements (passUpTo rt fx els m)) t = existsId rt els t"
  by (simp add: existsId_def list_ex_nth passUpTo_idOf)

lemma existsId_hasKey: "existsId rt els t \<longleftrightarrow> hasKey t (idToElement rt els)"
  by (auto simp: existsId_def list_ex_nth hasKey_idToElement)

lemma liveShape_existsId: "liveShape rt els self t \<Longrightarrow> existsId rt els t"
  by (auto simp: liveShape_def existsId_def list_ex_iff)


lemma resolveTarget_hasKey:
  assumes "resolveTarget rt (idToElement rt els) (qElements (passUpTo rt fx els m)) self hint cur ep = Some t"
  shows "hasKey t (idToElement rt els)"
proof -
  let ?els = "qElements (passUpTo rt fx els m)"
  have "hasKey t (idToElement rt els) \<or> inferBindingTargetId rt ep ?els self = Some t"
    using assms by (auto simp: resolveTarget_def split: if_splits option.splits)
  moreover have "hasKey t (idToElement rt els)" if "inferBindingTargetId rt ep ?els self = Some t"
  proof -
    from that obtain d where "inferLoop rt ep self ?els None = Some (t, d)"
      by (auto simp: inferBindingTargetId_def)
    from inferLoop_result [OF this] have "liveShape rt ?els self t"
      by (auto simp: liveShape_def list_ex_iff)
    then have "existsId rt ?els t"
      by (rule liveShape_existsId)
    then have "existsId rt els t"
      by (simp only: passUpTo_existsId)
    then show ?thesis
      by (simp only: existsId_hasKey)
  qed
  ultimately show ?thesis by blast
qed


subsection \<open>The connector branch on the concrete scenes\<close>









section \<open>The claims\<close>

text \<open>
  Claim C4, as stated: \<open>normalize(normalize(d)) = normalize(d)\<close> for every document, the
  update timestamp included. The second call reads the clock again, so the claim fails as
  soon as the clock has moved between the two calls: here on the empty scene.
\<close>

theorem C4_counterexample:
  "fst (normalizeScene rt0 (fst (normalizeScene rt0 (emptyScene ''s1'') env0))
          (snd (normalizeScene rt0 (emptyScene ''s1'') env0)))
   \<noteq> fst (normalizeScene rt0 (emptyScene ''s1'') env0)"
proof
  assume eq: "fst (normalizeScene rt0 (fst (normalizeScene rt0 (emptyScene ''s1'') env0))
          (snd (normalizeScene rt0 (emptyScene ''s1'') env0)))
     = fst (normalizeScene rt0 (emptyScene ''s1'') env0)"
  have "updatedAt (metadata (fst (normalizeScene rt0 (fst (normalizeScene rt0 (emptyScene ''s1'') env0))
          (snd (normalizeScene rt0 (emptyScene ''s1'') env0))))) = clockIso env0 1"
    by (simp add: normalizeScene_updatedAt normalizeScene_clockIso)
  moreover have "updatedAt (metadata (fst (normalizeScene rt0 (emptyScene ''s1'') env0))) = clockIso env0 0"
    by (simp add: normalizeScene_updatedAt)
  ultimately have "clockIso env0 1 = clockIso env0 0"
    using eq by simp
  then show False
    by (simp add: env0_def showNat.simps hexDigit_def)
qed

text \<open>
  Claim C4, amended: normalizing a normalized document changes nothing but the update
  timestamp, which is set to the clock reading of the second call. Elements, view state,
  files, library items, counts, hints and the revision hash are those of the first call.
\<close>

theorem C4_normalize_idempotent_up_to_updatedAt:
  "fst (normalizeScene rt (fst (normalizeScene rt d e1)) e2) =
     (fst (normalizeScene rt d e1))
       \<lparr>metadata := (metadata (fst (normalizeScene rt d e1)))\<lparr>updatedAt := clockIso e2 0\<rparr>\<rparr>"
  by (rule normalizeScene_twice)

theorem C4_witness:
  "fst (normalizeScene rt0 (fst (normalizeScene rt0 (emptyScene ''s1'') env0)) env0) =
     (fst (normalizeScene rt0 (emptyScene ''s1'') env0))
       \<lparr>metadata := (metadata (fst (normalizeScene rt0 (emptyScene ''s1'') env0)))
          \<lparr>updatedAt := ''2026-01-01T00:00:00.000Z''\<rparr>\<rparr>"
  using C4_normalize_idempotent_up_to_updatedAt [of rt0 "emptyScene ''s1''" env0 env0]
  by (simp add: env0_def showNat.simps hexDigit_def)

text \<open>
  Claim C10: in analysis-only mode the quality pass returns the scene it was given and
  counts no fix, whatever issues it reports.
\<close>

theorem C10_analysis_only_changes_nothing:
  "resultScene (applyDiagramQuality rt scene False) = scene \<and>
   fixesApplied (applyDiagramQuality rt scene False) = 0"
  by (simp add: applyDiagramQuality_nofix)

theorem C10_witness:
  "resultScene (applyDiagramQuality rt0 arrowScene False) = arrowScene \<and>
   fixesApplied (applyDiagramQuality rt0 arrowScene False) = 0 \<and>
   map issueCode (resultIssues (applyDiagramQuality rt0 arrowScene False)) =
     [CONNECTOR_UNBOUND, CONNECTOR_UNBOUND]"
  using C10_analysis_only_changes_nothing [of rt0 arrowScene] arrowScene_issues by simp

text \<open>
  Claim C6: take a batch and the working copy \<open>next\<close> that its operations \<open>pre\<close> produce, and an
  id \<open>uid\<close> that no element of \<open>next\<close> carries. If the next operation is an \<open>updateElements\<close>
  that names \<open>uid\<close>, the whole \<open>applyPatch\<close> call fails with \<open>NOT_FOUND\<close>. If it is a
  \<open>deleteElements\<close>, the call does what it does without \<open>uid\<close> in the list: the operation
  succeeds, puts \<open>uid\<close> into \<open>changedElementIds\<close> only if an earlier operation already had,
  and leaves elements, changed ids and clock untouched when it names nothing but \<open>uid\<close>.
\<close>

theorem C6_unknown_element_id:
  assumes "applyOperations rt pre scene [] e = (Inr (next, changed), e1)"
    and "\<forall>el \<in> set (elements next). getField ''id'' el \<noteq> Some (JStr uid)"
  shows "(uid \<in> fst ` set updates \<longrightarrow>
            (\<exists>err e'. applyPatch rt scene (pre @ UpdateElements updates # post) e = (Inl err, e') \<and>
                       errorCodeOf err = NOT_FOUND)) \<and>
         applyPatch rt scene (pre @ DeleteElements ids hardDelete # post) e =
           applyPatch rt scene (pre @ DeleteElements (removeAll uid ids) hardDelete # post) e \<and>
         (\<exists>next' changed' e'.
            applyOperation rt (DeleteElements ids hardDelete) next changed e1 = (Inr (next', changed'), e') \<and>
            (JStr uid \<in> set changed' \<longrightarrow> JStr uid \<in> set changed)) \<and>
         (set ids \<subseteq> {uid} \<longrightarrow>
            applyOperation rt (DeleteElements ids hardDelete) next changed e1 = (Inr (next, changed), e1))"
proof (intro conjI impI)
  assume "uid \<in> fst ` set updates"
  then obtain u where "u \<in> set updates" "fst u = uid" by auto
  then show "\<exists>err e'. applyPatch rt scene (pre @ UpdateElements updates # post) e = (Inl err, e') \<and>
                       errorCodeOf err = NOT_FOUND"
    using applyPatch_update_absent [OF assms(1), of u updates post] assms(2) by simp
next
  have "applyOperation rt (DeleteElements ids hardDelete) next changed e1 =
        applyOperation rt (DeleteElements (removeAll uid ids) hardDelete) next changed e1"
    using deleteLoop_absent [OF assms(2), of rt ids hardDelete changed e1] by simp
  then show "applyPatch rt scene (pre @ DeleteElements ids hardDelete # post) e =
           applyPatch rt scene (pre @ DeleteElements (removeAll uid ids) hardDelete # post) e"
    using applyPatch_cong_operation [OF assms(1)] by blast
next
  have "JStr uid \<in> set (fst (snd (deleteLoop rt ids hardDelete (elements next) changed e1)))
          \<longrightarrow> JStr uid \<in> set changed"
    using deleteLoop_changed [of "JStr uid" rt ids hardDelete "elements next" changed e1] assms(2)
    by auto
  then show "\<exists>next' changed' e'.
            applyOperation rt (DeleteElements ids hardDelete) next changed e1 = (Inr (next', changed'), e') \<and>
            (JStr uid \<in> set changed' \<longrightarrow> JStr uid \<in> set changed)"
    by (simp add: split_def Let_def)
next
  assume "set ids \<subseteq> {uid}"
  then have "\<forall>el \<in> set (elements next). \<forall>s. getField ''id'' el = Some (JStr s) \<longrightarrow> s \<notin> set ids"
    using assms(2) by auto
  then show "applyOperation rt (DeleteElements ids hardDelete) next changed e1 = (Inr (next, changed), e1)"
    using deleteLoop_none [of "elements next" ids rt hardDelete changed e1] by simp
qed

theorem C6_witness:
  "(\<exists>err e'. applyPatch rt0 oneRectScene [UpdateElements [(''ghost'', [])]] env0 = (Inl err, e') \<and>
              errorCodeOf err = NOT_FOUND) \<and>
   applyOperation rt0 (DeleteElements [''ghost''] False) oneRectScene [] env0 =
     (Inr (oneRectScene, []), env0)"
  using C6_unknown_element_id [of rt0 "[]" oneRectScene env0 oneRectScene "[]" env0 "''ghost''"
      "[(''ghost'', [])]" "[]" "[''ghost'']" False]
  by (simp add: oneRectScene_def rectN1_def getField_def)



text \<open>
  Claim C9, as stated: the list is sorted by \<open>updatedAt\<close>, descending, and documents with the
  same \<open>updatedAt\<close> are ordered by their identifier, so the order is a function of the stored
  documents. The sort has no second key: the scenes \<open>a\<close> and \<open>b\<close>, updated at the same
  instant, come out in the order in which \<open>readdir\<close> lists their files, whichever that is.
\<close>

theorem C9_counterexample:
  "fst (listMetadata [''b.excalidraw.json'', ''a.excalidraw.json''] store2) =
     Inr [metadata sceneB, metadata sceneA] \<and>
   fst (listMetadata [''a.excalidraw.json'', ''b.excalidraw.json''] store2) =
     Inr [metadata sceneA, metadata sceneB] \<and>
   updatedAt (metadata sceneA) = updatedAt (metadata sceneB) \<and>
   sceneId (metadata sceneA) = ''a'' \<and> sceneId (metadata sceneB) = ''b''"
  using list_ba list_ab by (simp add: sceneA_def sceneB_def emptyScene_def)

text \<open>
  Claim C9, amended: \<open>listMetadata\<close> returns the metadata of every scene file of the
  directory, sorted by \<open>updatedAt\<close>, descending; documents with the same \<open>updatedAt\<close> keep the
  order in which the directory lists them. It writes no file.
\<close>

theorem C9_listMetadata_sorted_stable:
  assumes "listMetadata dirEntries st = (Inr out, st')"
  shows "\<exists>loaded.
           list_all2 (\<lambda>f m. \<exists>sc. fst (load (take (length f - length sceneSuffix) f) st) = Inr sc \<and>
                              m = metadata sc)
             (filter (\<lambda>f. endsWith f sceneSuffix) dirEntries) loaded \<and>
           mset out = mset loaded \<and>
           sorted_wrt (\<lambda>a b. updatedAt b \<le> updatedAt a) out \<and>
           (\<forall>k. filter (\<lambda>m. updatedAt m = k) out = filter (\<lambda>m. updatedAt m = k) loaded) \<and>
           disk st' = disk st"
  using listMetadata_sorted [OF assms] .

theorem C9_witness:
  "\<exists>loaded.
     list_all2 (\<lambda>f m. \<exists>sc. fst (load (take (length f - length sceneSuffix) f) store2) = Inr sc \<and>
                        m = metadata sc)
       (filter (\<lambda>f. endsWith f sceneSuffix)
          [''a.excalidraw.json'', ''notes.txt'', ''c.excalidraw.json'', ''b.excalidraw.json'']) loaded \<and>
     mset [metadata sceneC, metadata sceneA, metadata sceneB] = mset loaded \<and>
     sorted_wrt (\<lambda>a b. updatedAt b \<le> updatedAt a) [metadata sceneC, metadata sceneA, metadata sceneB] \<and>
     (\<forall>k. filter (\<lambda>m. updatedAt m = k) [metadata sceneC, metadata sceneA, metadata sceneB] =
           filter (\<lambda>m. updatedAt m = k) loaded)"
  using C9_listMetadata_sorted_stable [OF list_abc] by blast







end
